theory Spec2Isabelle
  imports Main "HOL-Library.AList"
begin

section \<open>The Bootloader Specification layout of eclean-kernel\<close>

text \<open>
  A shallow embedding of \<^verbatim>\<open>ecleankernel/layout/blspec.py\<close>: the constructor of
  \<^verbatim>\<open>BlSpecLayout\<close>, which resolves the boot directory of the machine, and
  \<^verbatim>\<open>find_kernels\<close>, which groups the files below it into kernels.  The file system,
  the kernel image parser and the module directory collector are collaborators of the
  module; they are the fields of the record \<open>env\<close> below.
\<close>

subsection \<open>Paths\<close>

text \<open>
  A \<^verbatim>\<open>pathlib.Path\<close> is the list of its parts, as \<^verbatim>\<open>Path.parts\<close> has it on a POSIX
  system: the root (\<^verbatim>\<open>/\<close>, or \<^verbatim>\<open>//\<close> for exactly two leading slashes) comes first when
  the path is absolute, empty parts and \<^verbatim>\<open>.\<close> parts are dropped, and \<^verbatim>\<open>p / s\<close> is \<open>s\<close>
  alone when \<open>s\<close> is absolute.
\<close>

type_synonym path = "string list"

fun split_slash :: "string \<Rightarrow> string list" where
  "split_slash [] = [[]]"
| "split_slash (c # cs) =
     (if c = CHR ''/'' then [] # split_slash cs
      else (case split_slash cs of
              w # ws \<Rightarrow> (c # w) # ws
            | [] \<Rightarrow> [[c]]))"

definition path_root :: "string \<Rightarrow> string" where
  "path_root s =
     (if take 2 s = ''//'' \<and> take 3 s \<noteq> ''///'' then ''//''
      else if take 1 s = ''/'' then ''/''
      else [])"

definition parse_parts :: "string \<Rightarrow> path" where
  "parse_parts s =
     (if path_root s = [] then [] else [path_root s])
     @ filter (\<lambda>c. c \<noteq> [] \<and> c \<noteq> ''.'') (split_slash s)"

definition joinpath :: "path \<Rightarrow> string \<Rightarrow> path" where
  "joinpath p s = (if path_root s = [] then p @ parse_parts s else parse_parts s)"

definition startswith_dot :: "string \<Rightarrow> bool" where
  "startswith_dot s = (case s of [] \<Rightarrow> False | c # _ \<Rightarrow> c = CHR ''.'')"

text \<open>
  \<^verbatim>\<open>str.strip()\<close> removes leading and trailing whitespace.  A character stands for a
  code point below 256; these are the ones for which \<^verbatim>\<open>str.isspace\<close> holds.
\<close>

definition py_isspace :: "char \<Rightarrow> bool" where
  "py_isspace c \<longleftrightarrow>
     c \<in> set [CHR 0x09, CHR 0x0A, CHR 0x0B, CHR 0x0C, CHR 0x0D, CHR 0x1C, CHR 0x1D,
              CHR 0x1E, CHR 0x1F, CHR 0x20, CHR 0x85, CHR 0xA0]"

definition strip :: "string \<Rightarrow> string" where
  "strip s = rev (dropWhile py_isspace (rev (dropWhile py_isspace s)))"

subsection \<open>The data model\<close>

text \<open>
  Modelled from the spec: the enumeration \<^verbatim>\<open>KernelFileType\<close> of
  \<^verbatim>\<open>ecleankernel/file.py\<close>, a closed tag set containing KERNEL, INITRAMFS, MODULES and
  MISC; the other tags stand for the ones the spec elides, EMPTYDIR being the tag of an
  \<^verbatim>\<open>EmptyDirectory\<close>.
\<close>

datatype KernelFileType =
  KERNEL | SYSTEM_MAP | CONFIG | INITRAMFS | MODULES | BUILD | MISC | EMPTYDIR

text \<open>
  Modelled from the spec: the file records of \<^verbatim>\<open>ecleankernel/file.py\<close>.  A record is a
  path with a type; a \<^verbatim>\<open>KernelImage\<close> has type KERNEL and carries the internal version
  read from the image.
\<close>

datatype FileRecord =
  GenericFile path KernelFileType
| KernelImage path string
| EmptyDirectory path

fun ftype :: "FileRecord \<Rightarrow> KernelFileType" where
  "ftype (GenericFile p t) = t"
| "ftype (KernelImage p v) = KERNEL"
| "ftype (EmptyDirectory p) = EMPTYDIR"

fun file_path :: "FileRecord \<Rightarrow> path" where
  "file_path (GenericFile p t) = p"
| "file_path (KernelImage p v) = p"
| "file_path (EmptyDirectory p) = p"

text \<open>
  Modelled from the spec: the class \<^verbatim>\<open>Kernel\<close> of \<^verbatim>\<open>ecleankernel/kernel.py\<close>, with its
  display version and the ordered list of the files it owns; a new kernel owns none.
\<close>

record Kernel =
  version :: string
  all_files :: "FileRecord list"

definition mk_Kernel :: "string \<Rightarrow> Kernel" where
  "mk_Kernel ver = \<lparr>version = ver, all_files = []\<rparr>"

definition extend_files :: "Kernel \<Rightarrow> FileRecord list \<Rightarrow> Kernel" where
  "extend_files k fobjs = k\<lparr>all_files := all_files k @ fobjs\<rparr>"

text \<open>
  Modelled from the spec: the property \<^verbatim>\<open>Kernel.real_kv\<close>, the optional internal
  version discovered from the kernel's \<^verbatim>\<open>KernelImage\<close> if it has one: that of the first
  image in the file list.
\<close>

fun first_image_version :: "FileRecord list \<Rightarrow> string option" where
  "first_image_version [] = None"
| "first_image_version (KernelImage p v # fs) = Some v"
| "first_image_version (f # fs) = first_image_version fs"

definition real_kv :: "Kernel \<Rightarrow> string option" where
  "real_kv k = first_image_version (all_files k)"

datatype error =
  LayoutNotFound string
| AssertionError
| OSError

datatype read_result = FileNotFound | ReadError | Text string

datatype event =
  GetModuleDict path
| ListDir path
| LogDebug string

text \<open>
  The collaborators.  \<open>read_text p\<close> is \<^verbatim>\<open>open(p).read()\<close>, which raises
  \<^verbatim>\<open>FileNotFoundError\<close>, raises another error, or returns the text; \<open>kernel_image p\<close> is
  the constructor \<^verbatim>\<open>KernelImage(p)\<close>, with \<open>Inl err\<close> for \<^verbatim>\<open>UnrecognizedKernelError\<close> and
  \<open>Inr v\<close> for an image of internal version \<open>v\<close>; \<open>get_module_dict\<close> is the method
  inherited from \<^verbatim>\<open>ModuleDirLayout\<close>, whose dictionary is the list of its items in
  iteration order.  The file system is a snapshot: \<open>listdir p\<close> is the list
  \<^verbatim>\<open>os.listdir(p)\<close> returns, and the events record which directories were listed.
\<close>

record env =
  read_text :: "path \<Rightarrow> read_result"
  is_dir :: "path \<Rightarrow> bool"
  is_symlink :: "path \<Rightarrow> bool"
  listdir :: "path \<Rightarrow> string list"
  kernel_image :: "path \<Rightarrow> string + string"
  get_module_dict :: "KernelFileType set \<Rightarrow> path \<Rightarrow> (string \<times> FileRecord list) list"

record BlSpecLayout =
  root :: path
  bootdir :: path

subsection \<open>Construction of the layout\<close>

definition potential_dirs :: "string list" where
  "potential_dirs = [''boot/EFI'', ''boot/efi'', ''boot'', ''efi'']"

definition name_map :: "(string \<times> KernelFileType) list" where
  "name_map = [(''initrd'', INITRAMFS), (''linux'', KERNEL)]"

text \<open>The first loop of \<^verbatim>\<open>__init__\<close>, with its \<^verbatim>\<open>else\<close> branch for the exhausted list.\<close>

fun read_kernel_id :: "env \<Rightarrow> path \<Rightarrow> string list \<Rightarrow> error + string" where
  "read_kernel_id w r [] = Inl (LayoutNotFound ''/etc/machine-id not found'')"
| "read_kernel_id w r (p # ps) =
     (case read_text w (joinpath r p) of
        Text s \<Rightarrow> Inr (strip s)
      | FileNotFound \<Rightarrow> read_kernel_id w r ps
      | ReadError \<Rightarrow> Inl OSError)"

text \<open>The second loop of \<^verbatim>\<open>__init__\<close>.\<close>

fun probe_bootdir :: "env \<Rightarrow> path \<Rightarrow> string \<Rightarrow> string list \<Rightarrow> error + path" where
  "probe_bootdir w r kernel_id [] =
     Inl (LayoutNotFound (''/boot/[EFI/]'' @ kernel_id @ '' not found''))"
| "probe_bootdir w r kernel_id (d # ds) =
     (if is_dir w (joinpath (joinpath r d) kernel_id)
      then Inr (joinpath (joinpath r d) kernel_id)
      else probe_bootdir w r kernel_id ds)"

definition init :: "env \<Rightarrow> path \<Rightarrow> error + BlSpecLayout" where
  "init w r =
     (case read_kernel_id w r [''etc/kernel/entry-token'', ''etc/machine-id''] of
        Inl e \<Rightarrow> Inl e
      | Inr kernel_id \<Rightarrow>
          (case probe_bootdir w r kernel_id potential_dirs of
             Inl e \<Rightarrow> Inl e
           | Inr b \<Rightarrow> Inr \<lparr>root = r, bootdir = b\<rparr>))"

subsection \<open>Discovery of the kernels\<close>

type_synonym module_dict = "(string \<times> FileRecord list) list"
type_synonym kernel_dict = "(string \<times> Kernel) list"

definition dict_get :: "module_dict \<Rightarrow> string \<Rightarrow> FileRecord list" where
  "dict_get md key = (case map_of md key of Some fobjs \<Rightarrow> fobjs | None \<Rightarrow> [])"

definition lookup_type :: "string \<Rightarrow> KernelFileType" where
  "lookup_type fn = (case map_of name_map fn of Some t \<Rightarrow> t | None \<Rightarrow> MISC)"

text \<open>
  The body of the loop over the files of one boot entry (lines 84 to 101).  The state
  is the kernel under construction and the log.
\<close>

definition scan_file ::
  "env \<Rightarrow> KernelFileType set \<Rightarrow> module_dict \<Rightarrow> path \<Rightarrow> string \<Rightarrow>
   Kernel \<times> event list \<Rightarrow> Kernel \<times> event list" where
  "scan_file w exclusions md dir_path fn st =
     (case st of (k, lg) \<Rightarrow>
      if startswith_dot fn then (k, lg)
      else
        let p = joinpath dir_path fn;
            t = lookup_type fn;
            fobj = GenericFile p t;
            (k1, fobj1, lg1) =
              (if t = KERNEL then
                 (case kernel_image w p of
                    Inl err \<Rightarrow>
                      (k, fobj, lg @ [LogDebug (''Unrecognized potential kernel image: '' @ err)])
                  | Inr kv \<Rightarrow> (extend_files k (dict_get md kv), KernelImage p kv, lg))
               else (k, fobj, lg))
        in ((if t \<notin> exclusions then extend_files k1 [fobj1] else k1), lg1))"

fun scan_files ::
  "env \<Rightarrow> KernelFileType set \<Rightarrow> module_dict \<Rightarrow> path \<Rightarrow> string list \<Rightarrow>
   Kernel \<times> event list \<Rightarrow> Kernel \<times> event list" where
  "scan_files w exclusions md dir_path [] st = st"
| "scan_files w exclusions md dir_path (fn # fns) st =
     scan_files w exclusions md dir_path fns (scan_file w exclusions md dir_path fn st)"

text \<open>The body of the loop over the boot directory (lines 76 to 103).\<close>

definition scan_entry ::
  "env \<Rightarrow> KernelFileType set \<Rightarrow> module_dict \<Rightarrow> path \<Rightarrow> string \<Rightarrow>
   kernel_dict \<times> event list \<Rightarrow> kernel_dict \<times> event list" where
  "scan_entry w exclusions md bdir ver st =
     (case st of (kernels, lg) \<Rightarrow>
      if startswith_dot ver then (kernels, lg)
      else
        let dir_path = joinpath bdir ver
        in if is_symlink w dir_path \<or> \<not> is_dir w dir_path then (kernels, lg)
           else
             (case scan_files w exclusions md dir_path (listdir w dir_path)
                     (mk_Kernel ver, lg @ [ListDir dir_path]) of
                (k, lg') \<Rightarrow>
                  (AList.update ver (extend_files k [EmptyDirectory dir_path]) kernels, lg')))"

fun scan_entries ::
  "env \<Rightarrow> KernelFileType set \<Rightarrow> module_dict \<Rightarrow> path \<Rightarrow> string list \<Rightarrow>
   kernel_dict \<times> event list \<Rightarrow> kernel_dict \<times> event list" where
  "scan_entries w exclusions md bdir [] st = st"
| "scan_entries w exclusions md bdir (ver # vers) st =
     scan_entries w exclusions md bdir vers (scan_entry w exclusions md bdir ver st)"

text \<open>
  The body of the second loop (lines 106 to 109): \<^verbatim>\<open>setdefault\<close> returns the kernel
  already stored under the key, or stores a new one at the end of the dictionary.
\<close>

definition merge_orphan :: "string \<times> FileRecord list \<Rightarrow> kernel_dict \<Rightarrow> kernel_dict" where
  "merge_orphan item kernels =
     (case item of (mkv, fobjs) \<Rightarrow>
      if list_ex (\<lambda>k. real_kv k = Some mkv) (map snd kernels) then kernels
      else
        (case map_of kernels mkv of
           Some k \<Rightarrow> AList.update mkv (extend_files k fobjs) kernels
         | None \<Rightarrow> kernels @ [(mkv, extend_files (mk_Kernel mkv) fobjs)]))"

fun merge_orphans :: "module_dict \<Rightarrow> kernel_dict \<Rightarrow> kernel_dict" where
  "merge_orphans [] kernels = kernels"
| "merge_orphans (item # items) kernels = merge_orphans items (merge_orphan item kernels)"

definition module_directory :: "BlSpecLayout \<Rightarrow> path" where
  "module_directory l = joinpath (root l) ''lib/modules''"

text \<open>The state after the loop over the boot directory: the kernels and the log.\<close>

definition boot_scan ::
  "env \<Rightarrow> BlSpecLayout \<Rightarrow> KernelFileType set \<Rightarrow> kernel_dict \<times> event list" where
  "boot_scan w l exclusions =
     scan_entries w exclusions (get_module_dict w exclusions (module_directory l))
       (bootdir l) (listdir w (bootdir l))
       ([], [GetModuleDict (module_directory l), ListDir (bootdir l)])"

definition find_kernels ::
  "env \<Rightarrow> BlSpecLayout \<Rightarrow> KernelFileType set \<Rightarrow> event list \<times> (error + Kernel list)" where
  "find_kernels w l exclusions =
     (if KERNEL \<in> exclusions then ([], Inl AssertionError)
      else
        (case boot_scan w l exclusions of
           (kernels, lg) \<Rightarrow>
             (lg, Inr (map snd
                (merge_orphans (get_module_dict w exclusions (module_directory l)) kernels)))))"

subsection \<open>What one file and one boot entry contribute\<close>

text \<open>
  The notions the properties below are stated with, each read off the loop bodies
  above: the entries of the boot directory that yield a kernel, the records and the
  log lines one file adds, and the kernel one boot entry yields.
\<close>

definition processed :: "env \<Rightarrow> path \<Rightarrow> string \<Rightarrow> bool" where
  "processed w bdir ver \<longleftrightarrow>
     \<not> startswith_dot ver \<and> \<not> is_symlink w (joinpath bdir ver) \<and> is_dir w (joinpath bdir ver)"

definition file_records ::
  "env \<Rightarrow> KernelFileType set \<Rightarrow> module_dict \<Rightarrow> path \<Rightarrow> string \<Rightarrow> FileRecord list" where
  "file_records w exclusions md dir_path fn =
     all_files (fst (scan_file w exclusions md dir_path fn (mk_Kernel [], [])))"

definition file_log :: "env \<Rightarrow> path \<Rightarrow> string \<Rightarrow> event list" where
  "file_log w dir_path fn = snd (scan_file w {} [] dir_path fn (mk_Kernel [], []))"

definition entry_files ::
  "env \<Rightarrow> KernelFileType set \<Rightarrow> module_dict \<Rightarrow> path \<Rightarrow> FileRecord list" where
  "entry_files w exclusions md dir_path =
     all_files
       (fst (scan_files w exclusions md dir_path (listdir w dir_path) (mk_Kernel [], [])))"

definition entry_kernel ::
  "env \<Rightarrow> KernelFileType set \<Rightarrow> module_dict \<Rightarrow> path \<Rightarrow> string \<Rightarrow> Kernel" where
  "entry_kernel w exclusions md bdir ver =
     \<lparr>version = ver,
      all_files = entry_files w exclusions md (joinpath bdir ver)
                  @ [EmptyDirectory (joinpath bdir ver)]\<rparr>"

text \<open>The module dictionary \<^verbatim>\<open>find_kernels\<close> works with.\<close>

definition module_dict_of :: "env \<Rightarrow> BlSpecLayout \<Rightarrow> KernelFileType set \<Rightarrow> module_dict" where
  "module_dict_of w l exclusions = get_module_dict w exclusions (module_directory l)"

subsection \<open>The orphan pass\<close>

text \<open>
  The records the module directory collector yields are generic records of a type other
  than KERNEL (the contract of the collector: module-type file collections), and its
  dictionary has each key once.  \<open>matched\<close> is the test of line 107; \<open>final_dict\<close>
  is the dictionary whose values \<^verbatim>\<open>find_kernels\<close> returns.
\<close>

fun module_record :: "FileRecord \<Rightarrow> bool" where
  "module_record (GenericFile p t) = (t \<noteq> KERNEL)"
| "module_record f = False"

definition module_dict_ok :: "module_dict \<Rightarrow> bool" where
  "module_dict_ok md \<longleftrightarrow>
     distinct (map fst md) \<and> list_all (\<lambda>item. list_all module_record (snd item)) md"

definition matched :: "kernel_dict \<Rightarrow> string \<Rightarrow> bool" where
  "matched kernels mkv = list_ex (\<lambda>k. real_kv k = Some mkv) (map snd kernels)"

definition boot_entries :: "env \<Rightarrow> BlSpecLayout \<Rightarrow> string list" where
  "boot_entries w l = filter (processed w (bootdir l)) (listdir w (bootdir l))"

definition final_dict :: "env \<Rightarrow> BlSpecLayout \<Rightarrow> KernelFileType set \<Rightarrow> kernel_dict" where
  "final_dict w l exclusions =
     merge_orphans (module_dict_of w l exclusions) (fst (boot_scan w l exclusions))"

definition keyed :: "kernel_dict \<Rightarrow> bool" where
  "keyed ks \<longleftrightarrow> distinct (map fst ks) \<and> list_all (\<lambda>p. version (snd p) = fst p) ks"

subsection \<open>Conditions and derived notions\<close>

text \<open>
  The conditions the properties below ask of a file system and of a module dictionary,
  and the parts of the result they speak about.
\<close>

text \<open>
  The log lines of one iteration of the loop over the boot directory.
\<close>

definition entry_log :: "env \<Rightarrow> path \<Rightarrow> string \<Rightarrow> event list" where
  "entry_log w bdir ver =
     (if processed w bdir ver
      then ListDir (joinpath bdir ver)
           # concat (map (file_log w (joinpath bdir ver)) (listdir w (joinpath bdir ver)))
      else [])"

text \<open>
  The records the orphan pass appends to the kernel stored under a key.
\<close>

definition orphan_extra :: "env \<Rightarrow> BlSpecLayout \<Rightarrow> KernelFileType set \<Rightarrow> string \<Rightarrow> FileRecord list" where
  "orphan_extra w l ex key =
     (if key \<in> fst ` set (module_dict_of w l ex) \<and> \<not> matched (fst (boot_scan w l ex)) key
      then dict_get (module_dict_of w l ex) key else [])"

text \<open>
  The file system with the names that start with a dot removed from every listing.
\<close>

definition hide_dotfiles :: "env \<Rightarrow> env" where
  "hide_dotfiles w = w\<lparr>listdir := \<lambda>p. filter (\<lambda>n. \<not> startswith_dot n) (listdir w p)\<rparr>"

text \<open>
  The names \<^verbatim>\<open>os.listdir\<close> returns: not empty, without a slash, and neither \<^verbatim>\<open>.\<close> nor
  \<^verbatim>\<open>..\<close>.  \<open>listing_ok\<close> asks this of the boot entries and of the files in them.
\<close>

definition valid_name :: "string \<Rightarrow> bool" where
  "valid_name n \<longleftrightarrow> n \<noteq> [] \<and> n \<noteq> ''.'' \<and> n \<noteq> ''..'' \<and> CHR ''/'' \<notin> set n"

definition listing_ok :: "env \<Rightarrow> BlSpecLayout \<Rightarrow> bool" where
  "listing_ok w l \<longleftrightarrow>
     list_all (\<lambda>ver. valid_name ver \<and> list_all valid_name (listdir w (joinpath (bootdir l) ver)))
       (boot_entries w l)"

text \<open>
  The internal version of the image of a boot entry, when it has a file \<^verbatim>\<open>linux\<close>
  that parses.
\<close>

definition image_version :: "env \<Rightarrow> path \<Rightarrow> string option" where
  "image_version w dir_path =
     (if ''linux'' \<in> set (listdir w dir_path)
      then (case kernel_image w (joinpath dir_path ''linux'') of
              Inl err \<Rightarrow> None
            | Inr kv \<Rightarrow> Some kv)
      else None)"

text \<open>
  No two boot entries have images of the same internal version with a module tree
  under that version.
\<close>

definition images_apart :: "env \<Rightarrow> BlSpecLayout \<Rightarrow> module_dict \<Rightarrow> bool" where
  "images_apart w l md \<longleftrightarrow>
     (\<forall>v1 \<in> set (boot_entries w l). \<forall>v2 \<in> set (boot_entries w l). \<forall>kv \<in> fst ` set md.
        image_version w (joinpath (bootdir l) v1) = Some kv \<and>
        image_version w (joinpath (bootdir l) v2) = Some kv \<longrightarrow> v1 = v2)"

text \<open>
  The records of two module trees are different, and no record of a module tree has a
  path below the boot directory.
\<close>

definition module_files_apart :: "path \<Rightarrow> module_dict \<Rightarrow> bool" where
  "module_files_apart bdir md \<longleftrightarrow>
     (\<forall>i1 \<in> set md. \<forall>i2 \<in> set md. fst i1 \<noteq> fst i2 \<longrightarrow> set (snd i1) \<inter> set (snd i2) = {}) \<and>
     (\<forall>i \<in> set md. \<forall>f \<in> set (snd i). take (length bdir) (file_path f) \<noteq> bdir)"

text \<open>
  The kernels that are given the files of the module tree \<open>kv\<close>: a boot entry whose
  image has that version (line 97), and the kernel stored under \<open>kv\<close> itself when no
  image has that version (line 109).
\<close>

definition owner :: "env \<Rightarrow> BlSpecLayout \<Rightarrow> KernelFileType set \<Rightarrow> string \<Rightarrow> string \<Rightarrow> bool" where
  "owner w l ex kv key \<longleftrightarrow>
     (key \<in> set (boot_entries w l) \<and> image_version w (joinpath (bootdir l) key) = Some kv) \<or>
     (kv = key \<and> \<not> matched (fst (boot_scan w l ex)) key)"

subsection \<open>Example file systems\<close>

text \<open>
  The scenario of the specification: the machine identity \<^verbatim>\<open>abc123\<close>, one boot entry
  \<^verbatim>\<open>5.10.0\<close> whose image has the internal version \<^verbatim>\<open>5.10.0-internal\<close>, its module tree
  and an orphaned one.  The boot directory also holds a hidden directory, a symlink to
  a directory and a regular file, and the boot entry holds a hidden file.
\<close>

definition scenario_modules :: module_dict where
  "scenario_modules =
     [(''5.10.0-internal'', [GenericFile [''/'', ''lib'', ''modules'', ''5.10.0-internal''] MODULES]),
      (''5.9.9-orphan'', [GenericFile [''/'', ''lib'', ''modules'', ''5.9.9-orphan''] MODULES])]"

definition scenario_env :: env where
  "scenario_env =
     \<lparr>read_text = (\<lambda>p. if p = [''/'', ''etc'', ''machine-id''] then Text ''abc123\<newline>''
                       else FileNotFound),
      is_dir = (\<lambda>p. p \<in> set [[''/'', ''boot'', ''abc123''],
                               [''/'', ''boot'', ''abc123'', ''5.10.0''],
                               [''/'', ''boot'', ''abc123'', ''.old''],
                               [''/'', ''boot'', ''abc123'', ''current'']]),
      is_symlink = (\<lambda>p. p = [''/'', ''boot'', ''abc123'', ''current'']),
      listdir = (\<lambda>p. if p = [''/'', ''boot'', ''abc123'']
                       then [''5.10.0'', ''.old'', ''current'', ''notes'']
                     else if p = [''/'', ''boot'', ''abc123'', ''5.10.0'']
                       then [''linux'', ''initrd'', ''.hidden'', ''config'']
                     else []),
      kernel_image = (\<lambda>p. if p = [''/'', ''boot'', ''abc123'', ''5.10.0'', ''linux'']
                            then Inr ''5.10.0-internal'' else Inl ''bad magic''),
      get_module_dict = (\<lambda>ex p. if MODULES \<in> ex then [] else scenario_modules)\<rparr>"

definition scenario_layout :: BlSpecLayout where
  "scenario_layout = \<lparr>root = [''/''], bootdir = [''/'', ''boot'', ''abc123'']\<rparr>"

text \<open>
  A boot entry whose display name is the key of a module tree, while its image has
  another internal version.
\<close>

definition coincide_modules :: module_dict where
  "coincide_modules = [(''5.10'', [GenericFile [''/'', ''lib'', ''modules'', ''5.10''] MODULES])]"

definition coincide_env :: env where
  "coincide_env =
     \<lparr>read_text = (\<lambda>p. FileNotFound),
      is_dir = (\<lambda>p. p \<in> set [[''/'', ''efi'', ''m1''], [''/'', ''efi'', ''m1'', ''5.10'']]),
      is_symlink = (\<lambda>p. False),
      listdir = (\<lambda>p. if p = [''/'', ''efi'', ''m1''] then [''5.10'']
                     else if p = [''/'', ''efi'', ''m1'', ''5.10''] then [''linux'']
                     else []),
      kernel_image = (\<lambda>p. Inr ''5.10-g''),
      get_module_dict = (\<lambda>ex p. coincide_modules)\<rparr>"

definition coincide_layout :: BlSpecLayout where
  "coincide_layout = \<lparr>root = [''/''], bootdir = [''/'', ''efi'', ''m1'']\<rparr>"

text \<open>
  The scenario with a kernel image parser that recognizes no file.
\<close>

definition garbage_env :: env where
  "garbage_env = scenario_env\<lparr>kernel_image := \<lambda>p. Inl ''bad magic''\<rparr>"

text \<open>
  An entry token file of whitespace only, beside a machine id file.
\<close>

definition blank_token_env :: env where
  "blank_token_env =
     \<lparr>read_text = (\<lambda>p. if p = [''/'', ''etc'', ''kernel'', ''entry-token''] then Text ''  \<newline>''
                       else if p = [''/'', ''etc'', ''machine-id''] then Text ''abc123\<newline>''
                       else FileNotFound),
      is_dir = (\<lambda>p. p \<in> set [[''/'', ''boot''], [''/'', ''boot'', ''abc123'']]),
      is_symlink = (\<lambda>p. False),
      listdir = (\<lambda>p. []),
      kernel_image = (\<lambda>p. Inl ''bad magic''),
      get_module_dict = (\<lambda>ex p. [])\<rparr>"

text \<open>
  Two boot entries with images of the same internal version, and the module tree of
  that version.
\<close>

definition twin_env :: env where
  "twin_env =
     \<lparr>read_text = (\<lambda>p. FileNotFound),
      is_dir = (\<lambda>p. p \<in> set [[''/'', ''efi'', ''m1''], [''/'', ''efi'', ''m1'', ''a''],
                               [''/'', ''efi'', ''m1'', ''b'']]),
      is_symlink = (\<lambda>p. False),
      listdir = (\<lambda>p. if p = [''/'', ''efi'', ''m1''] then [''a'', ''b'']
                     else if p = [''/'', ''efi'', ''m1'', ''a''] then [''linux'']
                     else if p = [''/'', ''efi'', ''m1'', ''b''] then [''linux'']
                     else []),
      kernel_image = (\<lambda>p. Inr ''6.1''),
      get_module_dict =
        (\<lambda>ex p. [(''6.1'', [GenericFile [''/'', ''lib'', ''modules'', ''6.1''] MODULES])])\<rparr>"

section \<open>Properties\<close>

subsection \<open>The loops as list functions\<close>

lemma extend_files_Nil [simp]: "extend_files k [] = k"
  by (simp add: extend_files_def)

lemma extend_files_twice [simp]:
  "extend_files (extend_files k xs) ys = extend_files k (xs @ ys)"
  by (simp add: extend_files_def)

lemma all_files_extend [simp]: "all_files (extend_files k xs) = all_files k @ xs"
  by (simp add: extend_files_def)

lemma version_extend [simp]: "version (extend_files k xs) = version k"
  by (simp add: extend_files_def)

lemma scan_file_eq:
  "scan_file w ex md d fn (k, lg) =
     (extend_files k (file_records w ex md d fn), lg @ file_log w d fn)"
  by (simp add: scan_file_def file_records_def file_log_def extend_files_def mk_Kernel_def
      Let_def split: sum.splits)

lemma scan_files_eq:
  "scan_files w ex md d fns (k, lg) =
     (extend_files k (concat (map (file_records w ex md d) fns)),
      lg @ concat (map (file_log w d) fns))"
  by (induction fns arbitrary: k lg) (simp_all add: scan_file_eq)

lemma entry_files_eq:
  "entry_files w ex md d = concat (map (file_records w ex md d) (listdir w d))"
  by (simp add: entry_files_def scan_files_eq mk_Kernel_def)

lemma scan_entry_eq:
  "scan_entry w ex md b ver (ks, lg) =
     (if processed w b ver
      then (AList.update ver (entry_kernel w ex md b ver) ks,
            lg @ ListDir (joinpath b ver)
               # concat (map (file_log w (joinpath b ver)) (listdir w (joinpath b ver))))
      else (ks, lg))"
  by (auto simp add: scan_entry_def processed_def Let_def scan_files_eq entry_kernel_def
      entry_files_eq extend_files_def mk_Kernel_def)

lemma scan_entries_log:
  "\<exists>lg'. snd (scan_entries w ex md b vers (ks, lg)) = lg @ lg'"
proof (induction vers arbitrary: ks lg)
  case Nil
  show ?case by simp
next
  case (Cons ver vers)
  show ?case
  proof (cases "processed w b ver")
    case True
    then show ?thesis
      using Cons.IH [of "AList.update ver (entry_kernel w ex md b ver) ks"] 
      by (simp add: scan_entry_eq) (metis append.assoc)
  next
    case False
    then show ?thesis using Cons.IH [of ks lg] by (simp add: scan_entry_eq)
  qed
qed

subsection \<open>The dictionaries of the two passes\<close>

lemma first_image_version_append:
  "first_image_version (xs @ ys) =
     (case first_image_version xs of Some v \<Rightarrow> Some v | None \<Rightarrow> first_image_version ys)"
  by (induction xs rule: first_image_version.induct) simp_all

lemma first_image_version_modules:
  "list_all module_record fobjs \<Longrightarrow> first_image_version fobjs = None"
  by (induction fobjs rule: first_image_version.induct) simp_all

lemma real_kv_extend_modules:
  "list_all module_record fobjs \<Longrightarrow> real_kv (extend_files k fobjs) = real_kv k"
  by (simp add: real_kv_def first_image_version_append first_image_version_modules
      split: option.splits)

lemma real_kv_mk_Kernel [simp]: "real_kv (mk_Kernel v) = None"
  by (simp add: real_kv_def mk_Kernel_def)

lemma map_real_kv_update:
  "map_of ks m = Some k \<Longrightarrow> real_kv k' = real_kv k \<Longrightarrow>
   map (\<lambda>p. real_kv (snd p)) (AList.update m k' ks) = map (\<lambda>p. real_kv (snd p)) ks"
  by (induction ks) (auto split: if_splits)

lemma matched_iff: "matched ks x \<longleftrightarrow> Some x \<in> set (map (\<lambda>p. real_kv (snd p)) ks)"
  by (force simp add: matched_def list_ex_iff)

lemma merge_orphan_cases:
  "merge_orphan (m, fobjs) ks =
     (if matched ks m then ks
      else case map_of ks m of
             Some k \<Rightarrow> AList.update m (extend_files k fobjs) ks
           | None \<Rightarrow> ks @ [(m, extend_files (mk_Kernel m) fobjs)])"
  by (simp add: merge_orphan_def matched_def)

lemma matched_merge_orphan:
  assumes "list_all module_record fobjs"
  shows "matched (merge_orphan (m, fobjs) ks) x = matched ks x"
proof (cases "map_of ks m")
  case None
  then show ?thesis
    using assms by (auto simp add: merge_orphan_cases matched_iff real_kv_extend_modules)
next
  case (Some k)
  have "map (\<lambda>p. real_kv (snd p)) (AList.update m (extend_files k fobjs) ks)
        = map (\<lambda>p. real_kv (snd p)) ks"
    using assms by (intro map_real_kv_update [OF Some]) (rule real_kv_extend_modules)
  then have "matched (AList.update m (extend_files k fobjs) ks) x = matched ks x"
    by (simp only: matched_iff)
  then show ?thesis
    using Some by (simp add: merge_orphan_cases)
qed

lemma map_of_merge_orphan:
  "map_of (merge_orphan (m, fobjs) ks) key =
     (if key = m \<and> \<not> matched ks m
      then Some (extend_files (case map_of ks m of Some k \<Rightarrow> k | None \<Rightarrow> mk_Kernel m) fobjs)
      else map_of ks key)"
  by (auto simp add: merge_orphan_cases update_conv' map_add_def split: option.splits)

lemma dict_get_Cons:
  "dict_get ((m, fobjs) # md) key = (if key = m then fobjs else dict_get md key)"
  by (simp add: dict_get_def)

lemma dict_get_notin: "key \<notin> fst ` set md \<Longrightarrow> dict_get md key = []"
  by (simp add: dict_get_def map_of_eq_None_iff [THEN iffD2])

lemma map_of_merge_orphans:
  assumes "module_dict_ok md"
  shows "map_of (merge_orphans md ks) key =
     (if key \<in> fst ` set md \<and> \<not> matched ks key
      then Some (extend_files (case map_of ks key of Some k \<Rightarrow> k | None \<Rightarrow> mk_Kernel key)
                   (dict_get md key))
      else map_of ks key)"
  using assms
proof (induction md arbitrary: ks key)
  case Nil
  show ?case by simp
next
  case (Cons item md)
  obtain m fobjs where item: "item = (m, fobjs)" by (cases item)
  have ok: "module_dict_ok md" and mods: "list_all module_record fobjs"
    and fresh: "m \<notin> fst ` set md"
    using Cons.prems by (auto simp add: module_dict_ok_def item)
  have mt: "\<And>x. matched (merge_orphan (m, fobjs) ks) x = matched ks x"
    using mods by (rule matched_merge_orphan)
  show ?case
  proof (cases "key = m")
    case True
    show ?thesis
      unfolding True using fresh
      by (simp add: item Cons.IH [OF ok] mt map_of_merge_orphan dict_get_Cons)
  next
    case False
    then show ?thesis
      by (simp add: item Cons.IH [OF ok] mt map_of_merge_orphan dict_get_Cons)
  qed
qed

lemma scan_entries_map_of:
  "map_of (fst (scan_entries w ex md b vers (ks, lg))) ver =
     (if ver \<in> set vers \<and> processed w b ver then Some (entry_kernel w ex md b ver)
      else map_of ks ver)"
  by (induction vers arbitrary: ks lg) (auto simp add: scan_entry_eq update_conv')

lemma version_entry_kernel [simp]: "version (entry_kernel w ex md b ver) = ver"
  by (simp add: entry_kernel_def)

lemma list_all_update:
  "list_all P ks \<Longrightarrow> P (key, k) \<Longrightarrow> list_all P (AList.update key k ks)"
  by (induction ks) auto

lemma keyed_update:
  assumes "keyed ks" and "version k = key"
  shows "keyed (AList.update key k ks)"
  using assms by (simp add: keyed_def distinct_update list_all_update)

lemma scan_entries_keyed:
  "keyed ks \<Longrightarrow> keyed (fst (scan_entries w ex md b vers (ks, lg)))"
  by (induction vers arbitrary: ks lg) (auto simp add: scan_entry_eq keyed_update)

lemma keyed_snoc:
  assumes "keyed ks" and "map_of ks key = None" and "version k = key"
  shows "keyed (ks @ [(key, k)])"
  using assms by (simp add: keyed_def map_of_eq_None_iff)

lemma merge_orphan_keyed:
  assumes "keyed ks"
  shows "keyed (merge_orphan (m, fobjs) ks)"
proof (cases "map_of ks m")
  case None
  then show ?thesis
    using assms by (simp add: merge_orphan_cases keyed_snoc mk_Kernel_def)
next
  case (Some k)
  then have "(m, k) \<in> set ks" by (rule map_of_SomeD)
  then have "version k = m" using assms by (auto simp add: keyed_def list_all_iff)
  then show ?thesis
    using assms Some by (simp add: merge_orphan_cases keyed_update)
qed

lemma merge_orphans_keyed: "keyed ks \<Longrightarrow> keyed (merge_orphans md ks)"
  by (induction md arbitrary: ks) (auto simp add: merge_orphan_keyed)

lemma boot_scan_map_of:
  "map_of (fst (boot_scan w l ex)) ver =
     (if ver \<in> set (boot_entries w l)
      then Some (entry_kernel w ex (module_dict_of w l ex) (bootdir l) ver) else None)"
  by (simp add: boot_scan_def scan_entries_map_of boot_entries_def module_dict_of_def)

lemma boot_scan_keyed: "keyed (fst (boot_scan w l ex))"
  unfolding boot_scan_def by (rule scan_entries_keyed) (simp add: keyed_def)

lemma final_dict_keyed: "keyed (final_dict w l ex)"
  unfolding final_dict_def by (rule merge_orphans_keyed) (rule boot_scan_keyed)

lemma find_kernels_eq:
  "KERNEL \<notin> ex \<Longrightarrow>
   find_kernels w l ex = (snd (boot_scan w l ex), Inr (map snd (final_dict w l ex)))"
  by (simp add: find_kernels_def final_dict_def module_dict_of_def split: prod.splits)

lemma keyed_filter_version:
  "keyed ks \<Longrightarrow>
   filter (\<lambda>k. version k = v) (map snd ks) =
     (case map_of ks v of Some k \<Rightarrow> [k] | None \<Rightarrow> [])"
  unfolding keyed_def
proof (induction ks)
  case Nil
  then show ?case by simp
next
  case (Cons p ks)
  obtain key k where p: "p = (key, k)" by (cases p)
  show ?case
  proof (cases "key = v")
    case True
    then have "map_of ks v = None" using Cons.prems by (auto simp add: p map_of_eq_None_iff)
    then have "filter (\<lambda>k. version k = v) (map snd ks) = []" using Cons by simp
    then show ?thesis using True Cons.prems by (simp add: p)
  next
    case False
    then show ?thesis using Cons by (auto simp add: p)
  qed
qed

lemma keyed_in_set:
  assumes "keyed ks"
  shows "(key, k) \<in> set ks \<longleftrightarrow> map_of ks key = Some k"
  using assms by (simp add: keyed_def)

lemma keyed_version:
  assumes "keyed ks" and "(key, k) \<in> set ks"
  shows "version k = key"
  using assms by (auto simp add: keyed_def list_all_iff)

lemma keyed_member:
  assumes "keyed ks"
  shows "k \<in> set (map snd ks) \<longleftrightarrow> map_of ks (version k) = Some k"
proof
  assume "k \<in> set (map snd ks)"
  then obtain key where m: "(key, k) \<in> set ks" by auto
  then have "version k = key" using assms by (rule keyed_version [rotated])
  then show "map_of ks (version k) = Some k"
    using m keyed_in_set [OF assms] by simp
next
  assume "map_of ks (version k) = Some k"
  then have "(version k, k) \<in> set ks" by (rule map_of_SomeD)
  then show "k \<in> set (map snd ks)" by force
qed

lemma matched_boot_scan:
  "matched (fst (boot_scan w l ex)) v \<longleftrightarrow>
     (\<exists>ver \<in> set (boot_entries w l).
        real_kv (entry_kernel w ex (module_dict_of w l ex) (bootdir l) ver) = Some v)"
proof -
  have mem: "(key, k) \<in> set (fst (boot_scan w l ex)) \<longleftrightarrow>
     key \<in> set (boot_entries w l) \<and>
     k = entry_kernel w ex (module_dict_of w l ex) (bootdir l) key" for key k
    by (auto simp add: keyed_in_set [OF boot_scan_keyed] boot_scan_map_of)
  show ?thesis
  proof
    assume "matched (fst (boot_scan w l ex)) v"
    then obtain key k where "(key, k) \<in> set (fst (boot_scan w l ex))" and "real_kv k = Some v"
      by (auto simp add: matched_iff)
    then show "\<exists>ver \<in> set (boot_entries w l).
        real_kv (entry_kernel w ex (module_dict_of w l ex) (bootdir l) ver) = Some v"
      using mem by auto
  next
    assume "\<exists>ver \<in> set (boot_entries w l).
        real_kv (entry_kernel w ex (module_dict_of w l ex) (bootdir l) ver) = Some v"
    then obtain ver where "ver \<in> set (boot_entries w l)"
      and r: "real_kv (entry_kernel w ex (module_dict_of w l ex) (bootdir l) ver) = Some v"
      by auto
    then have "(ver, entry_kernel w ex (module_dict_of w l ex) (bootdir l) ver)
        \<in> set (fst (boot_scan w l ex))"
      using mem by simp
    then show "matched (fst (boot_scan w l ex)) v"
      using r by (force simp add: matched_iff)
  qed
qed

lemma final_dict_map_of:
  assumes "module_dict_ok (module_dict_of w l ex)"
  shows "map_of (final_dict w l ex) key =
     (if key \<in> fst ` set (module_dict_of w l ex) \<and> \<not> matched (fst (boot_scan w l ex)) key
      then Some \<lparr>version = key,
                 all_files =
                   (if key \<in> set (boot_entries w l)
                    then all_files (entry_kernel w ex (module_dict_of w l ex) (bootdir l) key)
                    else [])
                   @ dict_get (module_dict_of w l ex) key\<rparr>
      else if key \<in> set (boot_entries w l)
        then Some (entry_kernel w ex (module_dict_of w l ex) (bootdir l) key)
      else None)"
  by (simp add: final_dict_def map_of_merge_orphans [OF assms] boot_scan_map_of
      extend_files_def mk_Kernel_def entry_kernel_def)

subsection \<open>The precondition\<close>

text \<open>
  C3.  When KERNEL is in the exclusion set, \<open>find_kernels\<close> fails with the assertion
  and its log is empty: the module directories were not collected and no directory
  was listed.  When KERNEL is not excluded, the assertion does not fire:
  \<open>find_kernels\<close> collects the module directories, lists the boot directory and returns
  a list of kernels.
\<close>

theorem find_kernels_assertion_first:
  "(KERNEL \<in> exclusions \<longrightarrow> find_kernels w l exclusions = ([], Inl AssertionError)) \<and>
   (KERNEL \<notin> exclusions \<longrightarrow>
      (\<exists>lg ks. find_kernels w l exclusions =
         (GetModuleDict (module_directory l) # ListDir (bootdir l) # lg, Inr ks)))"
proof -
  obtain ks lg where s: "boot_scan w l exclusions = (ks, lg)"
    by (cases "boot_scan w l exclusions")
  obtain lg' where "lg = [GetModuleDict (module_directory l), ListDir (bootdir l)] @ lg'"
    using s scan_entries_log
      [of w exclusions "get_module_dict w exclusions (module_directory l)" "bootdir l"
          "listdir w (bootdir l)" "[]" "[GetModuleDict (module_directory l), ListDir (bootdir l)]"]
    by (auto simp add: boot_scan_def)
  then show ?thesis using s by (simp add: find_kernels_def)
qed

theorem find_kernels_assertion_first_witness:
  "find_kernels scenario_env scenario_layout {KERNEL, MISC} = ([], Inl AssertionError) \<and>
   (\<exists>lg ks. find_kernels scenario_env scenario_layout {MISC} =
      (GetModuleDict (module_directory scenario_layout)
         # ListDir (bootdir scenario_layout) # lg, Inr ks))"
  using find_kernels_assertion_first [of "{KERNEL, MISC}" scenario_env scenario_layout]
    find_kernels_assertion_first [of "{MISC}" scenario_env scenario_layout]
  by simp

subsection \<open>Records, logs and the final dictionary\<close>

lemmas path_defs = joinpath_def parse_parts_def path_root_def startswith_dot_def

lemmas scan_defs = find_kernels_def boot_scan_def scan_entry_def scan_file_def merge_orphan_def
  module_directory_def lookup_type_def name_map_def dict_get_def extend_files_def mk_Kernel_def
  real_kv_def Let_def

lemma dict_get_member:
  "distinct (map fst md) \<Longrightarrow> (key, fobjs) \<in> set md \<Longrightarrow> dict_get md key = fobjs"
  by (simp add: dict_get_def)

lemma scenario_scan:
  "fst (boot_scan scenario_env scenario_layout {}) =
     [(''5.10.0'', \<lparr>version = ''5.10.0'', all_files =
        [GenericFile [''/'', ''lib'', ''modules'', ''5.10.0-internal''] MODULES,
         KernelImage [''/'', ''boot'', ''abc123'', ''5.10.0'', ''linux''] ''5.10.0-internal'',
         GenericFile [''/'', ''boot'', ''abc123'', ''5.10.0'', ''initrd''] INITRAMFS,
         GenericFile [''/'', ''boot'', ''abc123'', ''5.10.0'', ''config''] MISC,
         EmptyDirectory [''/'', ''boot'', ''abc123'', ''5.10.0'']]\<rparr>)]"
  by (simp add: scenario_env_def scenario_layout_def scenario_modules_def path_defs scan_defs)

lemma lookup_type_KERNEL: "lookup_type fn = KERNEL \<longleftrightarrow> fn = ''linux''"
  by (simp add: lookup_type_def name_map_def)

lemma lookup_type_linux [simp]: "lookup_type ''linux'' = KERNEL"
  by (simp add: lookup_type_KERNEL)

lemma not_dot_linux [simp]: "\<not> startswith_dot ''linux''"
  by (simp add: startswith_dot_def)

lemma file_records_hidden: "startswith_dot fn \<Longrightarrow> file_records w ex md d fn = []"
  by (simp add: file_records_def scan_file_def mk_Kernel_def)

lemma file_records_linux:
  "file_records w ex md d ''linux'' =
     (case kernel_image w (joinpath d ''linux'') of
        Inl err \<Rightarrow> (if KERNEL \<in> ex then [] else [GenericFile (joinpath d ''linux'') KERNEL])
      | Inr kv \<Rightarrow> dict_get md kv
                  @ (if KERNEL \<in> ex then [] else [KernelImage (joinpath d ''linux'') kv]))"
  by (simp add: file_records_def scan_file_def mk_Kernel_def extend_files_def Let_def
      split: sum.splits)

lemma file_records_other:
  "\<not> startswith_dot fn \<Longrightarrow> fn \<noteq> ''linux'' \<Longrightarrow>
   file_records w ex md d fn =
     (if lookup_type fn \<in> ex then [] else [GenericFile (joinpath d fn) (lookup_type fn)])"
  by (simp add: file_records_def scan_file_def mk_Kernel_def lookup_type_KERNEL extend_files_def
      Let_def)

lemma file_log_eq:
  "file_log w d fn =
     (if fn = ''linux''
      then (case kernel_image w (joinpath d fn) of
              Inl err \<Rightarrow> [LogDebug (''Unrecognized potential kernel image: '' @ err)]
            | Inr kv \<Rightarrow> [])
      else [])"
  by (auto simp add: file_log_def scan_file_def mk_Kernel_def lookup_type_KERNEL Let_def
      split: sum.splits)

lemma dict_get_modules:
  assumes "module_dict_ok md"
  shows "list_all module_record (dict_get md key)"
proof (cases "map_of md key")
  case None
  then show ?thesis by (simp add: dict_get_def)
next
  case (Some fobjs)
  then have "(key, fobjs) \<in> set md" by (rule map_of_SomeD)
  then show ?thesis
    using assms Some by (auto simp add: module_dict_ok_def dict_get_def list_all_iff)
qed

lemma module_record_no_image:
  "list_all module_record fobjs \<Longrightarrow> first_image_version (fobjs @ rest) = first_image_version rest"
  by (simp add: first_image_version_append first_image_version_modules)

lemma first_image_other:
  "fn \<noteq> ''linux'' \<Longrightarrow>
   first_image_version (file_records w ex md d fn @ rest) = first_image_version rest"
  by (cases "startswith_dot fn") (simp_all add: file_records_hidden file_records_other)

lemma first_image_entry:
  assumes "KERNEL \<notin> ex" and "module_dict_ok md"
    and "''linux'' \<in> set fns"
    and "kernel_image w (joinpath d ''linux'') = Inr v"
  shows "first_image_version (concat (map (file_records w ex md d) fns) @ rest) = Some v"
  using assms(3)
proof (induction fns)
  case Nil
  then show ?case by simp
next
  case (Cons fn fns)
  show ?case
  proof (cases "fn = ''linux''")
    case True
    then show ?thesis
      using assms(1,4) dict_get_modules [OF assms(2), of v]
      by (simp add: file_records_linux module_record_no_image)
  next
    case False
    then show ?thesis
      using Cons by (simp add: first_image_other)
  qed
qed

lemma real_kv_entry_kernel:
  assumes "KERNEL \<notin> ex" and "module_dict_ok md"
    and "''linux'' \<in> set (listdir w (joinpath b ver))"
    and "kernel_image w (joinpath (joinpath b ver) ''linux'') = Inr v"
  shows "real_kv (entry_kernel w ex md b ver) = Some v"
  using first_image_entry [OF assms]
  by (simp add: real_kv_def entry_kernel_def entry_files_eq)

lemma entry_files_linux:
  assumes "''linux'' \<in> set (listdir w d)"
  shows "set (file_records w ex md d ''linux'') \<subseteq> set (entry_files w ex md d)"
  using assms by (auto simp add: entry_files_eq)

lemma scan_entries_log_eq:
  "snd (scan_entries w ex md b vers (ks, lg)) = lg @ concat (map (entry_log w b) vers)"
  by (induction vers arbitrary: ks lg) (simp_all add: scan_entry_eq entry_log_def)

lemma boot_scan_log:
  "snd (boot_scan w l ex) =
     GetModuleDict (module_directory l) # ListDir (bootdir l)
       # concat (map (entry_log w (bootdir l)) (listdir w (bootdir l)))"
  by (simp add: boot_scan_def scan_entries_log_eq)

lemma merge_orphan_extends:
  assumes "map_of ks key = Some k"
  shows "\<exists>extra. map_of (merge_orphan item ks) key = Some (extend_files k extra)"
proof (cases item)
  case (Pair m fobjs)
  show ?thesis
  proof (cases "key = m \<and> \<not> matched ks m")
    case True
    then show ?thesis using assms by (auto simp add: Pair map_of_merge_orphan)
  next
    case False
    then have "map_of (merge_orphan item ks) key = Some (extend_files k [])"
      using assms by (auto simp add: Pair map_of_merge_orphan)
    then show ?thesis by blast
  qed
qed

lemma merge_orphans_extends:
  assumes "map_of ks key = Some k"
  shows "\<exists>extra. map_of (merge_orphans md ks) key = Some (extend_files k extra)"
  using assms
proof (induction md arbitrary: ks k)
  case Nil
  then have "map_of (merge_orphans [] ks) key = Some (extend_files k [])" by simp
  then show ?case by blast
next
  case (Cons item md)
  obtain e1 where "map_of (merge_orphan item ks) key = Some (extend_files k e1)"
    using merge_orphan_extends [OF Cons.prems] by blast
  from Cons.IH [OF this] obtain e2 where
    "map_of (merge_orphans md (merge_orphan item ks)) key = Some (extend_files (extend_files k e1) e2)"
    by blast
  then have "map_of (merge_orphans (item # md) ks) key = Some (extend_files k (e1 @ e2))"
    by simp
  then show ?case by blast
qed

lemma final_dict_extends:
  assumes "ver \<in> set (boot_entries w l)"
  shows "\<exists>extra. map_of (final_dict w l ex) ver =
     Some (extend_files (entry_kernel w ex (module_dict_of w l ex) (bootdir l) ver) extra)"
  unfolding final_dict_def
  by (rule merge_orphans_extends) (simp add: boot_scan_map_of assms)

lemma concat_map_if:
  "concat (map (\<lambda>x. if P x then [] else [g x]) xs) = map g (filter (\<lambda>x. \<not> P x) xs)"
  by (induction xs) simp_all

lemma file_records_unparsed:
  assumes "KERNEL \<notin> ex" and "kernel_image w (joinpath d ''linux'') = Inl err"
  shows "file_records w ex md d fn =
     (if startswith_dot fn \<or> lookup_type fn \<in> ex then []
      else [GenericFile (joinpath d fn) (lookup_type fn)])"
proof (cases "fn = ''linux''")
  case True
  then show ?thesis using assms by (simp add: file_records_linux)
next
  case False
  then show ?thesis
    by (cases "startswith_dot fn") (simp_all add: file_records_hidden file_records_other)
qed

lemma entry_files_unparsed:
  assumes "KERNEL \<notin> ex" and "kernel_image w (joinpath d ''linux'') = Inl err"
  shows "entry_files w ex md d =
     map (\<lambda>fn. GenericFile (joinpath d fn) (lookup_type fn))
       (filter (\<lambda>fn. \<not> (startswith_dot fn \<or> lookup_type fn \<in> ex)) (listdir w d))"
proof -
  have "file_records w ex md d =
      (\<lambda>fn. if startswith_dot fn \<or> lookup_type fn \<in> ex then []
            else [GenericFile (joinpath d fn) (lookup_type fn)])"
    by (rule ext) (rule file_records_unparsed [OF assms])
  then show ?thesis
    by (simp only: entry_files_eq concat_map_if)
qed

lemma final_dict_entry:
  assumes "module_dict_ok (module_dict_of w l ex)" and "ver \<in> set (boot_entries w l)"
  shows "map_of (final_dict w l ex) ver =
     Some \<lparr>version = ver,
           all_files = entry_files w ex (module_dict_of w l ex) (joinpath (bootdir l) ver)
             @ [EmptyDirectory (joinpath (bootdir l) ver)] @ orphan_extra w l ex ver\<rparr>"
  using assms(2)
  by (simp add: final_dict_map_of [OF assms(1)] orphan_extra_def entry_kernel_def)

lemma module_record_ftype: "module_record f \<Longrightarrow> ftype f \<noteq> KERNEL"
  by (cases f) simp_all

lemma module_record_not_dir: "module_record f \<Longrightarrow> f \<noteq> EmptyDirectory p"
  by (cases f) simp_all

lemma modules_no_dir: "list_all module_record fobjs \<Longrightarrow> EmptyDirectory p \<notin> set fobjs"
  by (auto simp add: list_all_iff dest: module_record_not_dir)

lemma modules_no_kernel:
  "list_all module_record fobjs \<Longrightarrow> filter (\<lambda>f. ftype f = KERNEL) fobjs = []"
  by (auto simp add: list_all_iff filter_empty_conv dest: module_record_ftype)

lemma file_records_no_dir:
  assumes "module_dict_ok md"
  shows "EmptyDirectory p \<notin> set (file_records w ex md d fn)"
proof (cases "fn = ''linux''")
  case True
  then show ?thesis
    using modules_no_dir [OF dict_get_modules [OF assms]]
    by (simp add: file_records_linux split: sum.splits)
next
  case False
  then show ?thesis
    by (cases "startswith_dot fn") (simp_all add: file_records_hidden file_records_other)
qed

lemma entry_files_no_dir:
  assumes "module_dict_ok md"
  shows "EmptyDirectory p \<notin> set (entry_files w ex md d)"
  using file_records_no_dir [OF assms] by (simp add: entry_files_eq)

lemma file_records_kernel_count:
  assumes "KERNEL \<notin> ex" and "module_dict_ok md"
  shows "length (filter (\<lambda>f. ftype f = KERNEL) (file_records w ex md d fn)) =
     (if fn = ''linux'' then 1 else 0)"
proof (cases "fn = ''linux''")
  case True
  then show ?thesis
    using assms(1) modules_no_kernel [OF dict_get_modules [OF assms(2)]]
    by (simp add: file_records_linux split: sum.splits)
next
  case False
  then show ?thesis
    by (cases "startswith_dot fn")
      (simp_all add: file_records_hidden file_records_other lookup_type_KERNEL)
qed

lemma concat_kernel_count:
  assumes "KERNEL \<notin> ex" and "module_dict_ok md"
  shows "distinct fns \<Longrightarrow>
     length (filter (\<lambda>f. ftype f = KERNEL) (concat (map (file_records w ex md d) fns))) =
       (if ''linux'' \<in> set fns then 1 else 0)"
  by (induction fns) (auto simp add: file_records_kernel_count [OF assms])

lemma file_records_split:
  assumes "fn \<in> set fns"
  shows "\<exists>pre post. concat (map F fns) = pre @ F fn @ post"
proof -
  obtain xs ys where "fns = xs @ fn # ys" using assms by (auto dest: split_list)
  then have "concat (map F fns) = concat (map F xs) @ F fn @ concat (map F ys)" by simp
  then show ?thesis by blast
qed

lemma merge_orphans_None:
  "map_of ks key = None \<Longrightarrow> key \<notin> fst ` set md \<Longrightarrow> map_of (merge_orphans md ks) key = None"
proof (induction md arbitrary: ks)
  case Nil
  then show ?case by simp
next
  case (Cons item md)
  obtain m fobjs where item: "item = (m, fobjs)" by (cases item)
  have "key \<noteq> m" and "key \<notin> fst ` set md" using Cons.prems(2) by (auto simp add: item)
  then show ?case
    using Cons.IH [of "merge_orphan (m, fobjs) ks"] Cons.prems(1)
    by (simp add: item map_of_merge_orphan)
qed

lemma scan_file_hidden: "startswith_dot fn \<Longrightarrow> scan_file w ex md d fn st = st"
  by (cases st) (simp add: scan_file_def)

lemma scan_files_visible:
  "scan_files w ex md d (filter (\<lambda>n. \<not> startswith_dot n) fns) st = scan_files w ex md d fns st"
  by (induction fns arbitrary: st) (simp_all add: scan_file_hidden)

lemma kernel_image_hide: "kernel_image (hide_dotfiles w) = kernel_image w"
  by (simp add: hide_dotfiles_def)

lemma scan_file_hide: "scan_file (hide_dotfiles w) = scan_file w"
  by (intro ext) (simp only: scan_file_def kernel_image_hide)

lemma scan_files_hide: "scan_files (hide_dotfiles w) ex md d fns st = scan_files w ex md d fns st"
  by (induction fns arbitrary: st) (simp_all add: scan_file_hide)

lemma scan_entry_dot: "startswith_dot ver \<Longrightarrow> scan_entry w ex md b ver st = st"
  by (cases st) (simp add: scan_entry_def)

lemma scan_entry_hide: "scan_entry (hide_dotfiles w) ex md b ver st = scan_entry w ex md b ver st"
proof -
  have "listdir (hide_dotfiles w) p = filter (\<lambda>n. \<not> startswith_dot n) (listdir w p)" for p
    by (simp add: hide_dotfiles_def)
  moreover have "is_dir (hide_dotfiles w) = is_dir w" "is_symlink (hide_dotfiles w) = is_symlink w"
    by (simp_all add: hide_dotfiles_def)
  ultimately show ?thesis
    by (cases st) (simp add: scan_entry_def Let_def scan_files_hide scan_files_visible)
qed

lemma scan_entries_hide:
  "scan_entries (hide_dotfiles w) ex md b (filter (\<lambda>n. \<not> startswith_dot n) vers) st =
   scan_entries w ex md b vers st"
  by (induction vers arbitrary: st) (simp_all add: scan_entry_hide scan_entry_dot)

lemma boot_scan_hide: "boot_scan (hide_dotfiles w) l ex = boot_scan w l ex"
proof -
  have "listdir (hide_dotfiles w) p = filter (\<lambda>n. \<not> startswith_dot n) (listdir w p)" for p
    by (simp add: hide_dotfiles_def)
  moreover have "get_module_dict (hide_dotfiles w) = get_module_dict w"
    by (simp add: hide_dotfiles_def)
  ultimately show ?thesis
    by (simp add: boot_scan_def scan_entries_hide)
qed

lemma find_kernels_hide: "find_kernels (hide_dotfiles w) l ex = find_kernels w l ex"
proof -
  have "get_module_dict (hide_dotfiles w) = get_module_dict w"
    by (simp add: hide_dotfiles_def)
  then show ?thesis by (simp add: find_kernels_def boot_scan_hide)
qed

lemma entry_files_visible:
  "entry_files w ex md d =
     concat (map (file_records w ex md d) (filter (\<lambda>fn. \<not> startswith_dot fn) (listdir w d)))"
proof -
  have "scan_files w ex md d (listdir w d) (mk_Kernel [], []) =
      scan_files w ex md d (filter (\<lambda>fn. \<not> startswith_dot fn) (listdir w d)) (mk_Kernel [], [])"
    by (simp add: scan_files_visible)
  then show ?thesis
    by (simp add: entry_files_def scan_files_eq mk_Kernel_def)
qed

lemma probe_bootdir_find:
  "probe_bootdir w r kid ds =
     (case find (\<lambda>d. is_dir w (joinpath (joinpath r d) kid)) ds of
        Some d \<Rightarrow> Inr (joinpath (joinpath r d) kid)
      | None \<Rightarrow> Inl (LayoutNotFound (''/boot/[EFI/]'' @ kid @ '' not found'')))"
  by (induction ds) simp_all

lemma find_kernels_lists_bootdir:
  "KERNEL \<notin> ex \<Longrightarrow>
   \<exists>lg. fst (find_kernels w l ex) = GetModuleDict (module_directory l) # ListDir (bootdir l) # lg"
  by (simp add: find_kernels_eq boot_scan_log)

lemmas eval_defs = path_defs processed_def boot_entries_def module_dict_of_def module_directory_def

lemma scenario_md:
  "MODULES \<notin> ex \<Longrightarrow> module_dict_of scenario_env scenario_layout ex = scenario_modules"
  by (simp add: module_dict_of_def scenario_env_def)

lemma scenario_ok: "module_dict_ok scenario_modules"
  by (simp add: module_dict_ok_def scenario_modules_def)

lemma scenario_entries: "boot_entries scenario_env scenario_layout = [''5.10.0'']"
  by (simp add: scenario_env_def scenario_layout_def eval_defs)

lemma scenario_dir:
  "joinpath (bootdir scenario_layout) ''5.10.0'' = [''/'', ''boot'', ''abc123'', ''5.10.0'']"
  by (simp add: scenario_layout_def path_defs)

lemma scenario_linux:
  "joinpath [''/'', ''boot'', ''abc123'', ''5.10.0''] ''linux''
     = [''/'', ''boot'', ''abc123'', ''5.10.0'', ''linux'']"
  by (simp add: path_defs)

lemma scenario_listing:
  "listdir scenario_env [''/'', ''boot'', ''abc123'', ''5.10.0'']
     = [''linux'', ''initrd'', ''.hidden'', ''config'']"
  by (simp add: scenario_env_def)

lemma garbage_md:
  "MODULES \<notin> ex \<Longrightarrow> module_dict_of garbage_env scenario_layout ex = scenario_modules"
  by (simp add: module_dict_of_def garbage_env_def scenario_env_def)

lemma garbage_entries: "boot_entries garbage_env scenario_layout = [''5.10.0'']"
  by (simp add: garbage_env_def scenario_env_def scenario_layout_def eval_defs)

lemma garbage_listing:
  "listdir garbage_env [''/'', ''boot'', ''abc123'', ''5.10.0'']
     = [''linux'', ''initrd'', ''.hidden'', ''config'']"
  by (simp add: garbage_env_def scenario_env_def)

lemma garbage_files:
  "map (\<lambda>fn. GenericFile (joinpath [''/'', ''boot'', ''abc123'', ''5.10.0''] fn) (lookup_type fn))
     (filter (\<lambda>fn. \<not> (startswith_dot fn \<or> lookup_type fn \<in> {MISC}))
        [''linux'', ''initrd'', ''.hidden'', ''config''])
   = [GenericFile [''/'', ''boot'', ''abc123'', ''5.10.0'', ''linux''] KERNEL,
      GenericFile [''/'', ''boot'', ''abc123'', ''5.10.0'', ''initrd''] INITRAMFS]"
  by (simp add: path_defs lookup_type_def name_map_def)

lemma coincide_md: "module_dict_of coincide_env coincide_layout ex = coincide_modules"
  by (simp add: module_dict_of_def coincide_env_def)

lemma coincide_entries: "boot_entries coincide_env coincide_layout = [''5.10'']"
  by (simp add: coincide_env_def coincide_layout_def eval_defs)

lemma coincide_scan:
  "fst (boot_scan coincide_env coincide_layout {}) =
     [(''5.10'', \<lparr>version = ''5.10'', all_files =
        [KernelImage [''/'', ''efi'', ''m1'', ''5.10'', ''linux''] ''5.10-g'',
         EmptyDirectory [''/'', ''efi'', ''m1'', ''5.10'']]\<rparr>)]"
  by (simp add: coincide_env_def coincide_layout_def coincide_modules_def path_defs scan_defs)

lemma scenario_hidden_files:
  "entry_files scenario_env {} scenario_modules [''/'', ''boot'', ''abc123'', ''5.10.0''] =
     [GenericFile [''/'', ''lib'', ''modules'', ''5.10.0-internal''] MODULES,
      KernelImage [''/'', ''boot'', ''abc123'', ''5.10.0'', ''linux''] ''5.10.0-internal'',
      GenericFile [''/'', ''boot'', ''abc123'', ''5.10.0'', ''initrd''] INITRAMFS,
      GenericFile [''/'', ''boot'', ''abc123'', ''5.10.0'', ''config''] MISC]"
  by (simp add: entry_files_def scenario_env_def scenario_modules_def path_defs scan_defs)

lemma scenario_bootdir_listing:
  "listdir scenario_env (bootdir scenario_layout) = [''5.10.0'', ''.old'', ''current'', ''notes'']"
  by (simp add: scenario_env_def scenario_layout_def)

lemma scenario_skipped:
  "startswith_dot ''.old''"
  "is_symlink scenario_env (joinpath (bootdir scenario_layout) ''current'')"
  "\<not> is_dir scenario_env (joinpath (bootdir scenario_layout) ''notes'')"
  by (simp_all add: scenario_env_def scenario_layout_def path_defs)

lemma scenario_kernel_id:
  "read_kernel_id scenario_env [''/''] [''etc/kernel/entry-token'', ''etc/machine-id'']
     = Inr ''abc123''"
  by (simp add: scenario_env_def path_defs strip_def py_isspace_def)

lemma scenario_probe:
  "find (\<lambda>d. is_dir scenario_env (joinpath (joinpath [''/''] d) ''abc123''))
     [''boot/EFI'', ''boot/efi'', ''boot'', ''efi''] = Some ''boot''"
  by (simp add: scenario_env_def path_defs)

lemma split_slash_plain: "CHR ''/'' \<notin> set n \<Longrightarrow> split_slash n = [n]"
  by (induction n) auto

lemma joinpath_valid: "valid_name n \<Longrightarrow> joinpath p n = p @ [n]"
  by (cases n) (auto simp add: valid_name_def joinpath_def parse_parts_def path_root_def
      split_slash_plain)

lemma valid_linux [simp]: "valid_name ''linux''"
  by (simp add: valid_name_def)

lemma dict_get_in_md:
  "f \<in> set (dict_get md x) \<Longrightarrow> (x, dict_get md x) \<in> set md"
  by (auto simp add: dict_get_def split: option.splits dest: map_of_SomeD)

lemma dict_get_apart:
  assumes "module_files_apart b md" and "x \<noteq> y"
  shows "set (dict_get md x) \<inter> set (dict_get md y) = {}"
proof (rule ccontr)
  assume "set (dict_get md x) \<inter> set (dict_get md y) \<noteq> {}"
  then obtain f where fx: "f \<in> set (dict_get md x)" and fy: "f \<in> set (dict_get md y)"
    by blast
  have "(x, dict_get md x) \<in> set md" "(y, dict_get md y) \<in> set md"
    using fx fy by (simp_all add: dict_get_in_md)
  then have "set (dict_get md x) \<inter> set (dict_get md y) = {}"
    using assms unfolding module_files_apart_def by fastforce
  then show False using fx fy by blast
qed

lemma dict_get_outside:
  assumes "module_files_apart b md" and "f \<in> set (dict_get md x)"
  shows "take (length b) (file_path f) \<noteq> b"
  using assms dict_get_in_md [OF assms(2)] unfolding module_files_apart_def by fastforce

lemma file_records_cases:
  assumes "valid_name fn" and "f \<in> set (file_records w ex md d fn)"
  shows "file_path f = d @ [fn] \<or>
         (fn = ''linux'' \<and> (\<exists>kv. kernel_image w (joinpath d ''linux'') = Inr kv \<and>
            f \<in> set (dict_get md kv)))"
proof (cases "fn = ''linux''")
  case True
  then show ?thesis
    using assms(2)
    by (auto simp add: file_records_linux joinpath_valid split: sum.splits if_splits)
next
  case False
  then show ?thesis
    using assms
    by (cases "startswith_dot fn")
      (auto simp add: file_records_hidden file_records_other joinpath_valid split: if_splits)
qed

lemma entry_files_cases:
  assumes "list_all valid_name (listdir w d)" and "f \<in> set (entry_files w ex md d)"
  shows "(\<exists>fn. file_path f = d @ [fn]) \<or>
         (\<exists>kv. image_version w d = Some kv \<and> f \<in> set (dict_get md kv))"
proof -
  obtain fn where fn: "fn \<in> set (listdir w d)" and f: "f \<in> set (file_records w ex md d fn)"
    using assms(2) by (auto simp add: entry_files_eq)
  have "valid_name fn" using assms(1) fn by (simp add: list_all_iff)
  from file_records_cases [OF this f] show ?thesis
    using fn by (auto simp add: image_version_def)
qed

lemma image_version_matched:
  assumes "KERNEL \<notin> ex" and "module_dict_ok (module_dict_of w l ex)"
    and "key \<in> set (boot_entries w l)"
    and "image_version w (joinpath (bootdir l) key) = Some kv"
  shows "matched (fst (boot_scan w l ex)) kv"
proof -
  have lin: "''linux'' \<in> set (listdir w (joinpath (bootdir l) key))"
    and img: "kernel_image w (joinpath (joinpath (bootdir l) key) ''linux'') = Inr kv"
    using assms(4) by (auto simp add: image_version_def split: if_splits sum.splits)
  have "real_kv (entry_kernel w ex (module_dict_of w l ex) (bootdir l) key) = Some kv"
    using assms(1,2) lin img by (rule real_kv_entry_kernel)
  then show ?thesis using assms(3) by (auto simp add: matched_boot_scan)
qed

lemma owner_unique:
  assumes "KERNEL \<notin> ex" and "module_dict_ok (module_dict_of w l ex)"
    and "images_apart w l (module_dict_of w l ex)"
    and "kv \<in> fst ` set (module_dict_of w l ex)"
    and "owner w l ex kv key1" and "owner w l ex kv key2"
  shows "key1 = key2"
proof -
  have m: "matched (fst (boot_scan w l ex)) kv"
    if "key \<in> set (boot_entries w l)"
      and "image_version w (joinpath (bootdir l) key) = Some kv" for key
    using assms(1,2) that by (rule image_version_matched)
  show ?thesis
    using assms(3-6) m unfolding owner_def images_apart_def by blast
qed

lemma final_files_cases:
  assumes "module_dict_ok (module_dict_of w l ex)" and "listing_ok w l"
    and "map_of (final_dict w l ex) key = Some k" and "f \<in> set (all_files k)"
  shows "(\<exists>rest. file_path f = bootdir l @ key # rest) \<or>
         (\<exists>kv. owner w l ex kv key \<and> f \<in> set (dict_get (module_dict_of w l ex) kv))"
proof -
  let ?md = "module_dict_of w l ex"
  let ?d = "joinpath (bootdir l) key"
  have orph: ?thesis if "f \<in> set (dict_get ?md key)"
    and "\<not> matched (fst (boot_scan w l ex)) key"
    using that unfolding owner_def by blast
  show ?thesis
  proof (cases "key \<in> set (boot_entries w l)")
    case True
    then have v: "valid_name key" and vs: "list_all valid_name (listdir w ?d)"
      using assms(2) by (auto simp add: listing_ok_def list_all_iff)
    have d: "?d = bootdir l @ [key]" using v by (rule joinpath_valid)
    have "k = \<lparr>version = key, all_files =
        entry_files w ex ?md ?d @ [EmptyDirectory ?d] @ orphan_extra w l ex key\<rparr>"
      using assms(3) final_dict_entry [OF assms(1) True] by simp
    then have "all_files k =
        entry_files w ex ?md ?d @ [EmptyDirectory ?d] @ orphan_extra w l ex key"
      by simp
    then consider "f \<in> set (entry_files w ex ?md ?d)" | "f = EmptyDirectory ?d"
      | "f \<in> set (orphan_extra w l ex key)"
      using assms(4) by auto
    then show ?thesis
    proof cases
      case 1
      from entry_files_cases [OF vs 1] show ?thesis
        using True unfolding d owner_def by auto
    next
      case 2
      then show ?thesis by (simp add: d)
    next
      case 3
      then show ?thesis using orph by (auto simp add: orphan_extra_def split: if_splits)
    qed
  next
    case False
    then have "all_files k = dict_get ?md key \<and> \<not> matched (fst (boot_scan w l ex)) key"
      using assms(3) by (auto simp add: final_dict_map_of [OF assms(1)] split: if_splits)
    then show ?thesis using orph assms(4) by simp
  qed
qed

lemma final_files_disjoint:
  assumes "KERNEL \<notin> ex" and "module_dict_ok (module_dict_of w l ex)" and "listing_ok w l"
    and "images_apart w l (module_dict_of w l ex)"
    and "module_files_apart (bootdir l) (module_dict_of w l ex)"
    and "map_of (final_dict w l ex) key1 = Some k1"
    and "map_of (final_dict w l ex) key2 = Some k2"
    and "key1 \<noteq> key2"
  shows "set (all_files k1) \<inter> set (all_files k2) = {}"
proof (rule ccontr)
  let ?md = "module_dict_of w l ex"
  assume "set (all_files k1) \<inter> set (all_files k2) \<noteq> {}"
  then obtain f where f1: "f \<in> set (all_files k1)" and f2: "f \<in> set (all_files k2)"
    by blast
  note c1 = final_files_cases [OF assms(2,3,6) f1]
  note c2 = final_files_cases [OF assms(2,3,7) f2]
  have out: "take (length (bootdir l)) (file_path f) \<noteq> bootdir l"
    if "f \<in> set (dict_get ?md kv)" for kv
    using assms(5) that by (rule dict_get_outside)
  have same: False
    if o1: "owner w l ex x key1" and g1: "f \<in> set (dict_get ?md x)"
      and o2: "owner w l ex y key2" and g2: "f \<in> set (dict_get ?md y)" for x y
  proof (cases "x = y")
    case True
    have "x \<in> fst ` set ?md" using dict_get_in_md [OF g1] by force
    then have "key1 = key2"
      using assms(1,2,4) o1 o2 unfolding True by (intro owner_unique [of ex w l y]) auto
    then show False using assms(8) by simp
  next
    case False
    then show False using dict_get_apart [OF assms(5) False] g1 g2 by blast
  qed
  from c1 c2 show False
  proof (elim disjE exE conjE)
    fix r1 r2
    assume "file_path f = bootdir l @ key1 # r1" "file_path f = bootdir l @ key2 # r2"
    then show False using assms(8) by simp
  next
    fix r1 kv
    assume "file_path f = bootdir l @ key1 # r1" "f \<in> set (dict_get ?md kv)"
    then show False using out [of kv] by simp
  next
    fix r2 kv
    assume "f \<in> set (dict_get ?md kv)" "file_path f = bootdir l @ key2 # r2" 
    then show False using out [of kv] by simp
  next
    fix x y
    assume "owner w l ex x key1" "f \<in> set (dict_get ?md x)"
      "owner w l ex y key2" "f \<in> set (dict_get ?md y)"
    then show False by (rule same)
  qed
qed

lemma keyed_nth:
  assumes "keyed ks" and "i < length ks"
  shows "map_of ks (fst (ks ! i)) = Some (snd (ks ! i))"
proof -
  have "ks ! i \<in> set ks" using assms(2) by (rule nth_mem)
  then have "(fst (ks ! i), snd (ks ! i)) \<in> set ks" by simp
  then show ?thesis by (simp only: keyed_in_set [OF assms(1)])
qed

lemma final_files_shared:
  assumes "KERNEL \<notin> ex" and "module_dict_ok (module_dict_of w l ex)" and "listing_ok w l"
    and "map_of (final_dict w l ex) key1 = Some k1"
    and "map_of (final_dict w l ex) key2 = Some k2"
    and "key1 \<noteq> key2"
    and "f \<in> set (all_files k1)" and "f \<in> set (all_files k2)"
  shows "(\<exists>kv. f \<in> set (dict_get (module_dict_of w l ex) kv) \<and>
            key1 \<in> set (boot_entries w l) \<and> key2 \<in> set (boot_entries w l) \<and>
            image_version w (joinpath (bootdir l) key1) = Some kv \<and>
            image_version w (joinpath (bootdir l) key2) = Some kv) \<or>
         (\<exists>kv1 kv2. kv1 \<noteq> kv2 \<and> f \<in> set (dict_get (module_dict_of w l ex) kv1) \<and>
            f \<in> set (dict_get (module_dict_of w l ex) kv2)) \<or>
         (\<exists>kv. f \<in> set (dict_get (module_dict_of w l ex) kv) \<and>
            take (length (bootdir l)) (file_path f) = bootdir l)"
proof -
  let ?md = "module_dict_of w l ex"
  note c1 = final_files_cases [OF assms(2,3,4,7)]
  note c2 = final_files_cases [OF assms(2,3,5,8)]
  have m: "matched (fst (boot_scan w l ex)) kv"
    if "key \<in> set (boot_entries w l)"
      and "image_version w (joinpath (bootdir l) key) = Some kv" for key kv
    using assms(1,2) that by (rule image_version_matched)
  have same: ?thesis
    if o1: "owner w l ex x key1" and g1: "f \<in> set (dict_get ?md x)"
      and o2: "owner w l ex y key2" and g2: "f \<in> set (dict_get ?md y)" for x y
  proof (cases "x = y")
    case True
    have "key1 \<in> set (boot_entries w l) \<and> key2 \<in> set (boot_entries w l) \<and>
        image_version w (joinpath (bootdir l) key1) = Some y \<and>
        image_version w (joinpath (bootdir l) key2) = Some y"
      using o1 o2 assms(6) m unfolding True owner_def by blast
    then show ?thesis using g2 by blast
  next
    case False
    then show ?thesis using g1 g2 by blast
  qed
  from c1 c2 show ?thesis
  proof (elim disjE exE conjE)
    fix r1 r2
    assume "file_path f = bootdir l @ key1 # r1" "file_path f = bootdir l @ key2 # r2"
    then show ?thesis using assms(6) by simp
  next
    fix r1 kv
    assume "file_path f = bootdir l @ key1 # r1" "f \<in> set (dict_get ?md kv)"
    then have "f \<in> set (dict_get ?md kv) \<and> take (length (bootdir l)) (file_path f) = bootdir l"
      by simp
    then show ?thesis by blast
  next
    fix r2 kv
    assume "f \<in> set (dict_get ?md kv)" "file_path f = bootdir l @ key2 # r2"
    then have "f \<in> set (dict_get ?md kv) \<and> take (length (bootdir l)) (file_path f) = bootdir l"
      by simp
    then show ?thesis by blast
  next
    fix x y
    assume "owner w l ex x key1" "f \<in> set (dict_get ?md x)"
      "owner w l ex y key2" "f \<in> set (dict_get ?md y)"
    then show ?thesis by (rule same)
  qed
qed

lemma keyed_nth_version:
  assumes "keyed ks" and "i < length ks"
  shows "version (map snd ks ! i) = fst (ks ! i)"
proof -
  have "ks ! i \<in> set ks" using assms(2) by (rule nth_mem)
  then have "version (snd (ks ! i)) = fst (ks ! i)"
    using assms(1) by (simp add: keyed_def list_all_iff)
  then show ?thesis using assms(2) by simp
qed

lemma scenario_result:
  "snd (find_kernels scenario_env scenario_layout {}) =
     Inr [\<lparr>version = ''5.10.0'',
           all_files =
             [GenericFile [''/'', ''lib'', ''modules'', ''5.10.0-internal''] MODULES,
              KernelImage [''/'', ''boot'', ''abc123'', ''5.10.0'', ''linux''] ''5.10.0-internal'',
              GenericFile [''/'', ''boot'', ''abc123'', ''5.10.0'', ''initrd''] INITRAMFS,
              GenericFile [''/'', ''boot'', ''abc123'', ''5.10.0'', ''config''] MISC,
              EmptyDirectory [''/'', ''boot'', ''abc123'', ''5.10.0'']]\<rparr>,
          \<lparr>version = ''5.9.9-orphan'',
           all_files = [GenericFile [''/'', ''lib'', ''modules'', ''5.9.9-orphan''] MODULES]\<rparr>]"
  by (simp add: scenario_env_def scenario_layout_def scenario_modules_def path_defs scan_defs)

lemma twin_result:
  "snd (find_kernels twin_env coincide_layout {}) =
     Inr [\<lparr>version = ''a'',
           all_files = [GenericFile [''/'', ''lib'', ''modules'', ''6.1''] MODULES,
                        KernelImage [''/'', ''efi'', ''m1'', ''a'', ''linux''] ''6.1'',
                        EmptyDirectory [''/'', ''efi'', ''m1'', ''a'']]\<rparr>,
          \<lparr>version = ''b'',
           all_files = [GenericFile [''/'', ''lib'', ''modules'', ''6.1''] MODULES,
                        KernelImage [''/'', ''efi'', ''m1'', ''b'', ''linux''] ''6.1'',
                        EmptyDirectory [''/'', ''efi'', ''m1'', ''b'']]\<rparr>]"
  by (simp add: twin_env_def coincide_layout_def path_defs scan_defs)

lemma twin_md:
  "module_dict_of twin_env coincide_layout {} =
     [(''6.1'', [GenericFile [''/'', ''lib'', ''modules'', ''6.1''] MODULES])]"
  by (simp add: module_dict_of_def twin_env_def)

lemma twin_entries: "boot_entries twin_env coincide_layout = [''a'', ''b'']"
  by (simp add: twin_env_def coincide_layout_def eval_defs)

lemma twin_dirs:
  "joinpath (bootdir coincide_layout) ''a'' = [''/'', ''efi'', ''m1'', ''a'']"
  "joinpath (bootdir coincide_layout) ''b'' = [''/'', ''efi'', ''m1'', ''b'']"
  by (simp_all add: coincide_layout_def path_defs)

lemma twin_listings:
  "listdir twin_env [''/'', ''efi'', ''m1'', ''a''] = [''linux'']"
  "listdir twin_env [''/'', ''efi'', ''m1'', ''b''] = [''linux'']"
  by (simp_all add: twin_env_def)

subsection \<open>Construction\<close>

text \<open>
  C6 as stated fails: the entry token file holds whitespace only and the machine id
  file holds \<^verbatim>\<open>abc123\<close>.  The token is the empty string, and the boot directory is
  \<^verbatim>\<open>/boot\<close> although \<^verbatim>\<open>/boot/abc123\<close> exists.
\<close>

theorem blank_token_counterexample:
  "read_kernel_id blank_token_env [''/''] [''etc/kernel/entry-token'', ''etc/machine-id'']
     = Inr '''' \<and>
   init blank_token_env [''/''] = Inr \<lparr>root = [''/''], bootdir = [''/'', ''boot'']\<rparr>"
  by (simp add: init_def potential_dirs_def blank_token_env_def path_defs strip_def py_isspace_def)

text \<open>
  C6, as the code has it.  The identity token is the stripped text of the first of
  \<^verbatim>\<open>etc/kernel/entry-token\<close>, \<^verbatim>\<open>etc/machine-id\<close> that exists, also when that text is
  empty; and the constructor fails with the \<open>LayoutNotFound\<close> of the identity exactly
  when neither file exists.
\<close>

theorem kernel_id_first_existing:
  "(read_text w (joinpath r ''etc/kernel/entry-token'') = Text s \<longrightarrow>
      read_kernel_id w r [''etc/kernel/entry-token'', ''etc/machine-id''] = Inr (strip s)) \<and>
   (read_text w (joinpath r ''etc/kernel/entry-token'') = FileNotFound \<and>
    read_text w (joinpath r ''etc/machine-id'') = Text s \<longrightarrow>
      read_kernel_id w r [''etc/kernel/entry-token'', ''etc/machine-id''] = Inr (strip s)) \<and>
   (init w r = Inl (LayoutNotFound ''/etc/machine-id not found'') \<longleftrightarrow>
      read_text w (joinpath r ''etc/kernel/entry-token'') = FileNotFound \<and>
      read_text w (joinpath r ''etc/machine-id'') = FileNotFound)"
  by (auto simp add: init_def probe_bootdir_find potential_dirs_def
      split: read_result.splits sum.splits option.splits)

theorem kernel_id_first_existing_witness:
  "read_kernel_id blank_token_env [''/''] [''etc/kernel/entry-token'', ''etc/machine-id'']
     = Inr '''' \<and>
   read_kernel_id scenario_env [''/''] [''etc/kernel/entry-token'', ''etc/machine-id'']
     = Inr ''abc123'' \<and>
   init coincide_env [''/''] = Inl (LayoutNotFound ''/etc/machine-id not found'')"
proof -
  have a: "read_text blank_token_env (joinpath [''/''] ''etc/kernel/entry-token'') = Text ''  \<newline>''"
    by (simp add: blank_token_env_def path_defs)
  have b: "read_text scenario_env (joinpath [''/''] ''etc/kernel/entry-token'') = FileNotFound"
    "read_text scenario_env (joinpath [''/''] ''etc/machine-id'') = Text ''abc123\<newline>''"
    by (simp_all add: scenario_env_def path_defs)
  have c: "read_text coincide_env (joinpath [''/''] ''etc/kernel/entry-token'') = FileNotFound"
    "read_text coincide_env (joinpath [''/''] ''etc/machine-id'') = FileNotFound"
    by (simp_all add: coincide_env_def)
  have s: "strip ''  \<newline>'' = ''''" "strip ''abc123\<newline>'' = ''abc123''"
    by (simp_all add: strip_def py_isspace_def)
  show ?thesis
    using kernel_id_first_existing [of blank_token_env "[''/'']" "''  \<newline>''"]
      kernel_id_first_existing [of scenario_env "[''/'']" "''abc123\<newline>''"]
      kernel_id_first_existing [of coincide_env "[''/'']" "[]"]
      a b c
    by (simp add: s)
qed

text \<open>
  C9.  With the identity token \<open>kid\<close>, the constructor takes the first of
  \<^verbatim>\<open>boot/EFI\<close>, \<^verbatim>\<open>boot/efi\<close>, \<^verbatim>\<open>boot\<close>, \<^verbatim>\<open>efi\<close> under which \<open>kid\<close> is a directory as the
  boot directory of the layout, and fails with \<open>LayoutNotFound\<close> when there is none.
  \<open>find_kernels\<close> on that layout lists this boot directory, on whatever file system it
  runs later.
\<close>

theorem init_probes_in_order:
  assumes "read_kernel_id w r [''etc/kernel/entry-token'', ''etc/machine-id''] = Inr kid"
  shows "init w r =
     (case find (\<lambda>d. is_dir w (joinpath (joinpath r d) kid))
             [''boot/EFI'', ''boot/efi'', ''boot'', ''efi''] of
        Some d \<Rightarrow> Inr \<lparr>root = r, bootdir = joinpath (joinpath r d) kid\<rparr>
      | None \<Rightarrow> Inl (LayoutNotFound (''/boot/[EFI/]'' @ kid @ '' not found''))) \<and>
     (\<forall>l w' ex. init w r = Inr l \<and> KERNEL \<notin> ex \<longrightarrow>
        (\<exists>lg. fst (find_kernels w' l ex) =
           GetModuleDict (module_directory l) # ListDir (bootdir l) # lg))"
  using assms find_kernels_lists_bootdir
  by (simp add: init_def probe_bootdir_find potential_dirs_def split: option.splits)

theorem init_probes_in_order_witness:
  "init scenario_env [''/''] = Inr \<lparr>root = [''/''], bootdir = [''/'', ''boot'', ''abc123'']\<rparr> \<and>
   (\<exists>lg. fst (find_kernels garbage_env
                 \<lparr>root = [''/''], bootdir = [''/'', ''boot'', ''abc123'']\<rparr> {MISC}) =
      GetModuleDict [''/'', ''lib'', ''modules''] # ListDir [''/'', ''boot'', ''abc123''] # lg)"
proof -
  have j: "joinpath (joinpath [''/''] ''boot'') ''abc123'' = [''/'', ''boot'', ''abc123'']"
    by (simp add: path_defs)
  have m: "module_directory \<lparr>root = [''/''], bootdir = [''/'', ''boot'', ''abc123'']\<rparr>
      = [''/'', ''lib'', ''modules'']"
    by (simp add: module_directory_def path_defs)
  have i: "init scenario_env [''/''] = Inr \<lparr>root = [''/''], bootdir = [''/'', ''boot'', ''abc123'']\<rparr>"
    using init_probes_in_order [OF scenario_kernel_id, unfolded scenario_probe] by (simp add: j)
  have "\<forall>l w' ex. init scenario_env [''/''] = Inr l \<and> KERNEL \<notin> ex \<longrightarrow>
        (\<exists>lg. fst (find_kernels w' l ex) =
           GetModuleDict (module_directory l) # ListDir (bootdir l) # lg)"
    using init_probes_in_order [OF scenario_kernel_id] by (rule conjunct2)
  then have "init scenario_env [''/''] = Inr \<lparr>root = [''/''], bootdir = [''/'', ''boot'', ''abc123'']\<rparr>
      \<and> KERNEL \<notin> {MISC} \<longrightarrow>
      (\<exists>lg. fst (find_kernels garbage_env
                 \<lparr>root = [''/''], bootdir = [''/'', ''boot'', ''abc123'']\<rparr> {MISC}) =
      GetModuleDict (module_directory \<lparr>root = [''/''], bootdir = [''/'', ''boot'', ''abc123'']\<rparr>)
        # ListDir (bootdir \<lparr>root = [''/''], bootdir = [''/'', ''boot'', ''abc123'']\<rparr>) # lg)"
    by blast
  then show ?thesis using i by (simp add: m)
qed

subsection \<open>The boot scan\<close>

text \<open>
  C8.  An entry of the boot directory that starts with a dot, is a symlink or is not
  a directory yields no kernel in the boot scan, and a kernel of that version is in the
  result only when the module dictionary has the name as a key.  The records of a boot
  entry are those of its files that are not hidden, and \<open>find_kernels\<close> returns the same
  on the file system with the hidden names removed from every listing.
\<close>

theorem skipped_entries:
  assumes "KERNEL \<notin> ex"
  shows "\<exists>lg ks. find_kernels w l ex = (lg, Inr ks) \<and>
     (\<forall>ver \<in> set (listdir w (bootdir l)).
        startswith_dot ver \<or> is_symlink w (joinpath (bootdir l) ver)
          \<or> \<not> is_dir w (joinpath (bootdir l) ver) \<longrightarrow>
        map_of (fst (boot_scan w l ex)) ver = None \<and>
        (ver \<notin> fst ` set (module_dict_of w l ex) \<longrightarrow> filter (\<lambda>k. version k = ver) ks = [])) \<and>
     (\<forall>ver \<in> set (boot_entries w l).
        entry_files w ex (module_dict_of w l ex) (joinpath (bootdir l) ver) =
          concat (map (file_records w ex (module_dict_of w l ex) (joinpath (bootdir l) ver))
            (filter (\<lambda>fn. \<not> startswith_dot fn) (listdir w (joinpath (bootdir l) ver))))) \<and>
     find_kernels (hide_dotfiles w) l ex = find_kernels w l ex"
proof -
  have skip: "map_of (fst (boot_scan w l ex)) ver = None \<and>
        (ver \<notin> fst ` set (module_dict_of w l ex) \<longrightarrow>
           filter (\<lambda>k. version k = ver) (map snd (final_dict w l ex)) = [])"
    if s: "startswith_dot ver \<or> is_symlink w (joinpath (bootdir l) ver)
          \<or> \<not> is_dir w (joinpath (bootdir l) ver)" for ver
  proof -
    have "ver \<notin> set (boot_entries w l)"
      using s by (auto simp add: boot_entries_def processed_def)
    then have n: "map_of (fst (boot_scan w l ex)) ver = None"
      by (simp add: boot_scan_map_of)
    then have "ver \<notin> fst ` set (module_dict_of w l ex) \<Longrightarrow>
        map_of (final_dict w l ex) ver = None"
      unfolding final_dict_def by (rule merge_orphans_None)
    then show ?thesis
      using n by (simp add: keyed_filter_version [OF final_dict_keyed])
  qed
  show ?thesis
    unfolding find_kernels_hide using skip entry_files_visible
    by (simp add: find_kernels_eq [OF assms])
qed

theorem skipped_entries_witness:
  "\<exists>lg ks. find_kernels scenario_env scenario_layout {} = (lg, Inr ks) \<and>
     map_of (fst (boot_scan scenario_env scenario_layout {})) ''.old'' = None \<and>
     filter (\<lambda>k. version k = ''.old'') ks = [] \<and>
     map_of (fst (boot_scan scenario_env scenario_layout {})) ''current'' = None \<and>
     filter (\<lambda>k. version k = ''current'') ks = [] \<and>
     map_of (fst (boot_scan scenario_env scenario_layout {})) ''notes'' = None \<and>
     filter (\<lambda>k. version k = ''notes'') ks = [] \<and>
     entry_files scenario_env {} scenario_modules [''/'', ''boot'', ''abc123'', ''5.10.0''] =
       concat (map (file_records scenario_env {} scenario_modules
                      [''/'', ''boot'', ''abc123'', ''5.10.0''])
                 [''linux'', ''initrd'', ''config'']) \<and>
     find_kernels (hide_dotfiles scenario_env) scenario_layout {} =
       find_kernels scenario_env scenario_layout {}"
proof -
  have h1: "KERNEL \<notin> {}" by simp
  have keys: "''.old'' \<notin> fst ` set scenario_modules" "''current'' \<notin> fst ` set scenario_modules"
    "''notes'' \<notin> fst ` set scenario_modules"
    by (simp_all add: scenario_modules_def)
  have vis: "filter (\<lambda>fn. \<not> startswith_dot fn) [''linux'', ''initrd'', ''.hidden'', ''config'']
      = [''linux'', ''initrd'', ''config'']"
    by (simp add: startswith_dot_def)
  from skipped_entries [OF h1, of scenario_env scenario_layout] obtain lg ks where
    r1: "find_kernels scenario_env scenario_layout {} = (lg, Inr ks)"
    and r2: "\<And>ver. ver \<in> set (listdir scenario_env (bootdir scenario_layout)) \<Longrightarrow>
        startswith_dot ver \<or> is_symlink scenario_env (joinpath (bootdir scenario_layout) ver)
          \<or> \<not> is_dir scenario_env (joinpath (bootdir scenario_layout) ver) \<Longrightarrow>
        map_of (fst (boot_scan scenario_env scenario_layout {})) ver = None \<and>
        (ver \<notin> fst ` set (module_dict_of scenario_env scenario_layout {}) \<longrightarrow>
           filter (\<lambda>k. version k = ver) ks = [])"
    and r3: "\<And>ver. ver \<in> set (boot_entries scenario_env scenario_layout) \<Longrightarrow>
        entry_files scenario_env {} (module_dict_of scenario_env scenario_layout {})
            (joinpath (bootdir scenario_layout) ver) =
          concat (map (file_records scenario_env {} (module_dict_of scenario_env scenario_layout {})
                         (joinpath (bootdir scenario_layout) ver))
            (filter (\<lambda>fn. \<not> startswith_dot fn)
               (listdir scenario_env (joinpath (bootdir scenario_layout) ver))))"
    and r4: "find_kernels (hide_dotfiles scenario_env) scenario_layout {} =
       find_kernels scenario_env scenario_layout {}"
    by blast
  have md: "module_dict_of scenario_env scenario_layout {} = scenario_modules"
    by (simp add: scenario_md)
  have a: "map_of (fst (boot_scan scenario_env scenario_layout {})) ''.old'' = None \<and>
      filter (\<lambda>k. version k = ''.old'') ks = []"
    using r2 [of "''.old''"] scenario_skipped(1) keys(1)
    by (simp add: scenario_bootdir_listing md)
  have b: "map_of (fst (boot_scan scenario_env scenario_layout {})) ''current'' = None \<and>
      filter (\<lambda>k. version k = ''current'') ks = []"
    using r2 [of "''current''"] scenario_skipped(2) keys(2)
    by (simp add: scenario_bootdir_listing md)
  have c: "map_of (fst (boot_scan scenario_env scenario_layout {})) ''notes'' = None \<and>
      filter (\<lambda>k. version k = ''notes'') ks = []"
    using r2 [of "''notes''"] scenario_skipped(3) keys(3)
    by (simp add: scenario_bootdir_listing md)
  have d: "entry_files scenario_env {} scenario_modules [''/'', ''boot'', ''abc123'', ''5.10.0''] =
       concat (map (file_records scenario_env {} scenario_modules
                      [''/'', ''boot'', ''abc123'', ''5.10.0''])
                 [''linux'', ''initrd'', ''config''])"
    using r3 [of "''5.10.0''"] unfolding md scenario_dir scenario_listing vis
    by (simp add: scenario_entries)
  show ?thesis
    using r1 r4 a b c d by blast
qed

text \<open>
  C5.  Let the file \<^verbatim>\<open>linux\<close> of the boot entry \<open>ver\<close> fail to parse, with the message
  \<open>err\<close>.  Then \<open>find_kernels\<close> returns a list of kernels, the failure is in the log,
  the kernel the boot scan builds for \<open>ver\<close> holds one generic record for each file
  that is neither hidden nor excluded and the record of the directory (so no record of
  a module tree and no image), and the kernel of version \<open>ver\<close> in the result holds the
  generic record of type KERNEL for \<^verbatim>\<open>linux\<close>.
\<close>

theorem unrecognized_image_kept_generic:
  assumes "KERNEL \<notin> ex"
    and "ver \<in> set (boot_entries w l)"
    and "''linux'' \<in> set (listdir w (joinpath (bootdir l) ver))"
    and "kernel_image w (joinpath (joinpath (bootdir l) ver) ''linux'') = Inl err"
  shows "\<exists>lg ks k. find_kernels w l ex = (lg, Inr ks) \<and>
           LogDebug (''Unrecognized potential kernel image: '' @ err) \<in> set lg \<and>
           map_of (fst (boot_scan w l ex)) ver =
             Some \<lparr>version = ver,
                   all_files =
                     map (\<lambda>fn. GenericFile (joinpath (joinpath (bootdir l) ver) fn) (lookup_type fn))
                       (filter (\<lambda>fn. \<not> (startswith_dot fn \<or> lookup_type fn \<in> ex))
                          (listdir w (joinpath (bootdir l) ver)))
                     @ [EmptyDirectory (joinpath (bootdir l) ver)]\<rparr> \<and>
           filter (\<lambda>k. version k = ver) ks = [k] \<and>
           GenericFile (joinpath (joinpath (bootdir l) ver) ''linux'') KERNEL \<in> set (all_files k)"
proof -
  let ?d = "joinpath (bootdir l) ver"
  let ?md = "module_dict_of w l ex"
  have ef: "entry_files w ex ?md ?d =
     map (\<lambda>fn. GenericFile (joinpath ?d fn) (lookup_type fn))
       (filter (\<lambda>fn. \<not> (startswith_dot fn \<or> lookup_type fn \<in> ex)) (listdir w ?d))"
    using assms(1,4) by (rule entry_files_unparsed)
  have lin: "GenericFile (joinpath ?d ''linux'') KERNEL \<in> set (entry_files w ex ?md ?d)"
    unfolding ef using assms(1,3) by (force simp add: image_iff)
  have proc: "processed w (bootdir l) ver" and mem: "ver \<in> set (listdir w (bootdir l))"
    using assms(2) by (simp_all add: boot_entries_def)
  have "LogDebug (''Unrecognized potential kernel image: '' @ err) \<in> set (file_log w ?d ''linux'')"
    using assms(4) by (simp add: file_log_eq)
  then have "LogDebug (''Unrecognized potential kernel image: '' @ err)
      \<in> set (entry_log w (bootdir l) ver)"
    using proc assms(3) by (auto simp add: entry_log_def)
  then have lg: "LogDebug (''Unrecognized potential kernel image: '' @ err)
      \<in> set (snd (boot_scan w l ex))"
    using mem by (auto simp add: boot_scan_log)
  obtain extra where fin: "map_of (final_dict w l ex) ver =
      Some (extend_files (entry_kernel w ex ?md (bootdir l) ver) extra)"
    using final_dict_extends [OF assms(2)] by blast
  have sc: "map_of (fst (boot_scan w l ex)) ver = Some (entry_kernel w ex ?md (bootdir l) ver)"
    using assms(2) by (simp add: boot_scan_map_of)
  show ?thesis
    using lg lin
    by (simp add: find_kernels_eq [OF assms(1)] keyed_filter_version [OF final_dict_keyed]
        fin sc) (simp add: entry_kernel_def ef)
qed

theorem unrecognized_image_kept_generic_witness:
  "\<exists>lg ks k. find_kernels garbage_env scenario_layout {MISC} = (lg, Inr ks) \<and>
      LogDebug ''Unrecognized potential kernel image: bad magic'' \<in> set lg \<and>
      map_of (fst (boot_scan garbage_env scenario_layout {MISC})) ''5.10.0'' =
        Some \<lparr>version = ''5.10.0'',
              all_files =
                [GenericFile [''/'', ''boot'', ''abc123'', ''5.10.0'', ''linux''] KERNEL,
                 GenericFile [''/'', ''boot'', ''abc123'', ''5.10.0'', ''initrd''] INITRAMFS,
                 EmptyDirectory [''/'', ''boot'', ''abc123'', ''5.10.0'']]\<rparr> \<and>
      filter (\<lambda>k. version k = ''5.10.0'') ks = [k] \<and>
      GenericFile [''/'', ''boot'', ''abc123'', ''5.10.0'', ''linux''] KERNEL \<in> set (all_files k)"
proof -
  have h1: "KERNEL \<notin> {MISC}" by simp
  have h2: "''5.10.0'' \<in> set (boot_entries garbage_env scenario_layout)"
    by (simp add: garbage_entries)
  have h3: "''linux'' \<in> set (listdir garbage_env (joinpath (bootdir scenario_layout) ''5.10.0''))"
    by (simp add: scenario_dir garbage_listing)
  have h4: "kernel_image garbage_env
      (joinpath (joinpath (bootdir scenario_layout) ''5.10.0'') ''linux'') = Inl ''bad magic''"
    by (simp add: garbage_env_def)
  show ?thesis
    using unrecognized_image_kept_generic [OF h1 h2 h3 h4]
    unfolding scenario_dir garbage_listing garbage_files scenario_linux
    by simp
qed

text \<open>
  C7.  For every boot entry \<open>ver\<close>, whatever the exclusion set holds besides KERNEL,
  the kernel of version \<open>ver\<close> in the result holds exactly one \<open>EmptyDirectory\<close> record
  of the directory of the entry; and when the directory has a file named \<^verbatim>\<open>linux\<close>,
  exactly one record of type KERNEL.  The records of the module dictionary are the
  collector's: generic records of a type other than KERNEL.
\<close>

theorem entry_kernel_counts:
  assumes "KERNEL \<notin> ex"
    and "module_dict_ok (module_dict_of w l ex)"
    and "ver \<in> set (boot_entries w l)"
    and "distinct (listdir w (joinpath (bootdir l) ver))"
  shows "\<exists>lg ks k. find_kernels w l ex = (lg, Inr ks) \<and>
           filter (\<lambda>k. version k = ver) ks = [k] \<and>
           count_list (all_files k) (EmptyDirectory (joinpath (bootdir l) ver)) = 1 \<and>
           (''linux'' \<in> set (listdir w (joinpath (bootdir l) ver)) \<longrightarrow>
              length (filter (\<lambda>f. ftype f = KERNEL) (all_files k)) = 1)"
proof -
  let ?md = "module_dict_of w l ex"
  let ?d = "joinpath (bootdir l) ver"
  have x: "list_all module_record (orphan_extra w l ex ver)"
    using dict_get_modules [OF assms(2)] by (simp add: orphan_extra_def)
  have c1: "count_list (entry_files w ex ?md ?d) (EmptyDirectory ?d) = 0"
    using entry_files_no_dir [OF assms(2)] by (simp add: count_list_0_iff)
  have c2: "count_list (orphan_extra w l ex ver) (EmptyDirectory ?d) = 0"
    using modules_no_dir [OF x] by (simp add: count_list_0_iff)
  have k1: "length (filter (\<lambda>f. ftype f = KERNEL) (entry_files w ex ?md ?d)) =
      (if ''linux'' \<in> set (listdir w ?d) then 1 else 0)"
    unfolding entry_files_eq using assms(1,2,4) by (rule concat_kernel_count)
  show ?thesis
    using c1 c2 k1 modules_no_kernel [OF x]
    by (simp add: find_kernels_eq [OF assms(1)] keyed_filter_version [OF final_dict_keyed]
        final_dict_entry [OF assms(2,3)])
qed

theorem entry_kernel_counts_witness:
  "\<exists>lg ks k. find_kernels scenario_env scenario_layout {EMPTYDIR, MISC} = (lg, Inr ks) \<and>
      filter (\<lambda>k. version k = ''5.10.0'') ks = [k] \<and>
      count_list (all_files k) (EmptyDirectory [''/'', ''boot'', ''abc123'', ''5.10.0'']) = 1 \<and>
      length (filter (\<lambda>f. ftype f = KERNEL) (all_files k)) = 1"
proof -
  have h2: "module_dict_ok (module_dict_of scenario_env scenario_layout {EMPTYDIR, MISC})"
    by (simp add: scenario_md scenario_ok)
  have h3: "''5.10.0'' \<in> set (boot_entries scenario_env scenario_layout)"
    by (simp add: scenario_entries)
  have h4: "distinct (listdir scenario_env (joinpath (bootdir scenario_layout) ''5.10.0''))"
    by (simp add: scenario_dir scenario_listing)
  show ?thesis
    using entry_kernel_counts [OF _ h2 h3 h4] by (simp add: scenario_dir scenario_listing)
qed

text \<open>
  C10 as stated fails on the same file system: the record of the directory is not the
  last of the kernel's file list.
\<close>

theorem directory_not_last_counterexample:
  "snd (find_kernels coincide_env coincide_layout {MISC}) =
     Inr [\<lparr>version = ''5.10'',
           all_files = [KernelImage [''/'', ''efi'', ''m1'', ''5.10'', ''linux''] ''5.10-g'',
                        EmptyDirectory [''/'', ''efi'', ''m1'', ''5.10'']]
                       @ [GenericFile [''/'', ''lib'', ''modules'', ''5.10''] MODULES]\<rparr>] \<and>
   last [KernelImage [''/'', ''efi'', ''m1'', ''5.10'', ''linux''] ''5.10-g'',
         EmptyDirectory [''/'', ''efi'', ''m1'', ''5.10''],
         GenericFile [''/'', ''lib'', ''modules'', ''5.10''] MODULES]
     \<noteq> EmptyDirectory [''/'', ''efi'', ''m1'', ''5.10'']"
  by (simp add: coincide_env_def coincide_layout_def coincide_modules_def path_defs scan_defs)

text \<open>
  C10, as the code has it.  The file list of the kernel of a boot entry \<open>ver\<close> is: the
  records of the files of the entry, then the \<open>EmptyDirectory\<close> record of the entry,
  then, when \<open>ver\<close> is also a key of the module dictionary that no kernel of the boot
  scan has as internal version, the files of that module tree, which the orphan pass
  appends.  Among the records of the files, when \<^verbatim>\<open>linux\<close> parses with the internal
  version \<open>v\<close>, the files of the module tree \<open>v\<close> come right before the image.
\<close>

theorem entry_file_order:
  assumes "KERNEL \<notin> ex"
    and "module_dict_ok (module_dict_of w l ex)"
    and "ver \<in> set (boot_entries w l)"
  shows "\<exists>lg ks k. find_kernels w l ex = (lg, Inr ks) \<and>
           filter (\<lambda>k. version k = ver) ks = [k] \<and>
           all_files k =
             entry_files w ex (module_dict_of w l ex) (joinpath (bootdir l) ver)
             @ [EmptyDirectory (joinpath (bootdir l) ver)]
             @ (if ver \<in> fst ` set (module_dict_of w l ex) \<and> \<not> matched (fst (boot_scan w l ex)) ver
                then dict_get (module_dict_of w l ex) ver else []) \<and>
           (\<forall>v. ''linux'' \<in> set (listdir w (joinpath (bootdir l) ver)) \<and>
                kernel_image w (joinpath (joinpath (bootdir l) ver) ''linux'') = Inr v \<longrightarrow>
                (\<exists>pre post.
                   entry_files w ex (module_dict_of w l ex) (joinpath (bootdir l) ver) =
                     pre @ dict_get (module_dict_of w l ex) v
                     @ [KernelImage (joinpath (joinpath (bootdir l) ver) ''linux'') v] @ post))"
proof -
  let ?md = "module_dict_of w l ex"
  let ?d = "joinpath (bootdir l) ver"
  have ord: "\<exists>pre post. entry_files w ex ?md ?d =
        pre @ dict_get ?md v @ [KernelImage (joinpath ?d ''linux'') v] @ post"
    if lin: "''linux'' \<in> set (listdir w ?d)"
      and img: "kernel_image w (joinpath ?d ''linux'') = Inr v" for v
  proof -
    obtain pre post where
      "entry_files w ex ?md ?d = pre @ file_records w ex ?md ?d ''linux'' @ post"
      unfolding entry_files_eq using file_records_split [OF lin] by blast
    then have "entry_files w ex ?md ?d =
        pre @ dict_get ?md v @ [KernelImage (joinpath ?d ''linux'') v] @ post"
      using img assms(1) by (simp add: file_records_linux)
    then show ?thesis by blast
  qed
  show ?thesis
    using ord
    by (simp add: find_kernels_eq [OF assms(1)] keyed_filter_version [OF final_dict_keyed]
        final_dict_entry [OF assms(2,3)] orphan_extra_def)
qed

theorem entry_file_order_witness:
  "\<exists>lg ks k. find_kernels coincide_env coincide_layout {} = (lg, Inr ks) \<and>
      filter (\<lambda>k. version k = ''5.10'') ks = [k] \<and>
      all_files k =
        [KernelImage [''/'', ''efi'', ''m1'', ''5.10'', ''linux''] ''5.10-g'']
        @ [EmptyDirectory [''/'', ''efi'', ''m1'', ''5.10'']]
        @ [GenericFile [''/'', ''lib'', ''modules'', ''5.10''] MODULES]"
proof -
  have h2: "module_dict_ok (module_dict_of coincide_env coincide_layout {})"
    by (simp add: coincide_md module_dict_ok_def coincide_modules_def)
  have h3: "''5.10'' \<in> set (boot_entries coincide_env coincide_layout)"
    by (simp add: coincide_entries)
  have d: "joinpath (bootdir coincide_layout) ''5.10'' = [''/'', ''efi'', ''m1'', ''5.10'']"
    by (simp add: coincide_layout_def path_defs)
  have e: "entry_files coincide_env {} coincide_modules [''/'', ''efi'', ''m1'', ''5.10'']
      = [KernelImage [''/'', ''efi'', ''m1'', ''5.10'', ''linux''] ''5.10-g'']"
    by (simp add: entry_files_def coincide_env_def coincide_modules_def path_defs scan_defs)
  have m: "\<not> matched (fst (boot_scan coincide_env coincide_layout {})) ''5.10''"
    by (simp add: coincide_scan matched_def real_kv_def)
  have g: "dict_get coincide_modules ''5.10'' = [GenericFile [''/'', ''lib'', ''modules'', ''5.10''] MODULES]"
    by (simp add: coincide_modules_def dict_get_def)
  have i: "''5.10'' \<in> fst ` set coincide_modules"
    by (simp add: coincide_modules_def)
  have h1: "KERNEL \<notin> {}" by simp
  from entry_file_order [OF h1 h2 h3] obtain lg ks k where
    r1: "find_kernels coincide_env coincide_layout {} = (lg, Inr ks)"
    and r2: "filter (\<lambda>k. version k = ''5.10'') ks = [k]"
    and r3: "all_files k =
       entry_files coincide_env {} (module_dict_of coincide_env coincide_layout {})
         (joinpath (bootdir coincide_layout) ''5.10'')
       @ [EmptyDirectory (joinpath (bootdir coincide_layout) ''5.10'')]
       @ (if ''5.10'' \<in> fst ` set (module_dict_of coincide_env coincide_layout {}) \<and>
             \<not> matched (fst (boot_scan coincide_env coincide_layout {})) ''5.10''
          then dict_get (module_dict_of coincide_env coincide_layout {}) ''5.10'' else [])"
    by blast
  have "all_files k =
        [KernelImage [''/'', ''efi'', ''m1'', ''5.10'', ''linux''] ''5.10-g'']
        @ [EmptyDirectory [''/'', ''efi'', ''m1'', ''5.10'']]
        @ [GenericFile [''/'', ''lib'', ''modules'', ''5.10''] MODULES]"
    unfolding r3 coincide_md d e g using m i by simp
  with r1 r2 show ?thesis by blast
qed

subsection \<open>Module trees\<close>

text \<open>
  C4.  Let the image \<^verbatim>\<open>linux\<close> of the boot entry \<open>ver\<close> parse with the internal version
  \<open>v\<close>, a key of the module dictionary with the files \<open>fobjs\<close>.  Then the kernel of
  version \<open>ver\<close> in the result holds all of \<open>fobjs\<close>, and the orphan pass yields no
  kernel for \<open>v\<close>: the only kernel of version \<open>v\<close> in the result, if any, is the one of
  a boot entry named \<open>v\<close>, as the boot scan left it.
\<close>

theorem matched_modules_attached:
  assumes "KERNEL \<notin> ex"
    and "module_dict_ok (module_dict_of w l ex)"
    and "ver \<in> set (boot_entries w l)"
    and "''linux'' \<in> set (listdir w (joinpath (bootdir l) ver))"
    and "kernel_image w (joinpath (joinpath (bootdir l) ver) ''linux'') = Inr v"
    and "map_of (module_dict_of w l ex) v = Some fobjs"
  shows "\<exists>lg ks k. find_kernels w l ex = (lg, Inr ks) \<and>
           filter (\<lambda>k. version k = ver) ks = [k] \<and>
           set fobjs \<subseteq> set (all_files k) \<and>
           filter (\<lambda>k. version k = v) ks =
             (if v \<in> set (boot_entries w l)
              then [entry_kernel w ex (module_dict_of w l ex) (bootdir l) v] else [])"
proof -
  let ?md = "module_dict_of w l ex"
  let ?d = "joinpath (bootdir l) ver"
  have "dict_get ?md v = fobjs"
    using assms(6) by (simp add: dict_get_def)
  then have "set fobjs \<subseteq> set (file_records w ex ?md ?d ''linux'')"
    using assms(5) by (simp add: file_records_linux)
  then have sub: "set fobjs \<subseteq> set (entry_files w ex ?md ?d)"
    using entry_files_linux [OF assms(4)] by blast
  have "real_kv (entry_kernel w ex ?md (bootdir l) ver) = Some v"
    using assms(1,2,4,5) by (rule real_kv_entry_kernel)
  then have m: "matched (fst (boot_scan w l ex)) v"
    using assms(3) by (auto simp add: matched_boot_scan)
  show ?thesis
    using sub m assms(3)
    by (auto simp add: find_kernels_eq [OF assms(1)] keyed_filter_version [OF final_dict_keyed]
        final_dict_map_of [OF assms(2)] entry_kernel_def)
qed

theorem matched_modules_attached_witness:
  "\<exists>lg ks k. find_kernels scenario_env scenario_layout {} = (lg, Inr ks) \<and>
      filter (\<lambda>k. version k = ''5.10.0'') ks = [k] \<and>
      set [GenericFile [''/'', ''lib'', ''modules'', ''5.10.0-internal''] MODULES]
        \<subseteq> set (all_files k) \<and>
      filter (\<lambda>k. version k = ''5.10.0-internal'') ks = []"
proof -
  have h2: "module_dict_ok (module_dict_of scenario_env scenario_layout {})"
    by (simp add: scenario_md scenario_ok)
  have h3: "''5.10.0'' \<in> set (boot_entries scenario_env scenario_layout)"
    by (simp add: scenario_entries)
  have h4: "''linux'' \<in> set (listdir scenario_env (joinpath (bootdir scenario_layout) ''5.10.0''))"
    by (simp add: scenario_dir scenario_listing)
  have h5: "kernel_image scenario_env
      (joinpath (joinpath (bootdir scenario_layout) ''5.10.0'') ''linux'') = Inr ''5.10.0-internal''"
    by (simp add: scenario_dir scenario_linux) (simp add: scenario_env_def)
  have h6: "map_of (module_dict_of scenario_env scenario_layout {}) ''5.10.0-internal''
      = Some [GenericFile [''/'', ''lib'', ''modules'', ''5.10.0-internal''] MODULES]"
    by (simp add: scenario_md scenario_modules_def)
  show ?thesis
    using matched_modules_attached [OF _ h2 h3 h4 h5 h6] by (simp add: scenario_entries)
qed

text \<open>
  C1 as stated fails: the boot entry \<^verbatim>\<open>5.10\<close> has an image of internal version
  \<^verbatim>\<open>5.10-g\<close>, and the module tree \<^verbatim>\<open>5.10\<close> matches no image.  The result is one kernel,
  the one of the boot entry, with the files of the module tree appended.
\<close>

theorem orphan_merged_by_name_counterexample:
  "snd (find_kernels coincide_env coincide_layout {}) =
    Inr [\<lparr>version = ''5.10'',
          all_files = [KernelImage [''/'', ''efi'', ''m1'', ''5.10'', ''linux''] ''5.10-g'',
                       EmptyDirectory [''/'', ''efi'', ''m1'', ''5.10''],
                       GenericFile [''/'', ''lib'', ''modules'', ''5.10''] MODULES]\<rparr>]"
  by (simp add: coincide_env_def coincide_layout_def coincide_modules_def path_defs scan_defs)

text \<open>
  C1, as the code has it.  Let \<open>mkv\<close> be a key of the module dictionary that is not the
  internal version of any kernel of the boot scan.  Then the result has exactly one
  kernel of version \<open>mkv\<close>.  When no boot entry is named \<open>mkv\<close>, its files are exactly
  the files of that module tree.  When a boot entry is named \<open>mkv\<close>, \<^verbatim>\<open>setdefault\<close> returns
  the kernel of that entry, and the files of the module tree are appended to it.
\<close>

theorem orphan_kernel:
  assumes "KERNEL \<notin> ex"
    and "module_dict_ok (module_dict_of w l ex)"
    and "(mkv, fobjs) \<in> set (module_dict_of w l ex)"
    and "\<not> matched (fst (boot_scan w l ex)) mkv"
  shows "\<exists>lg ks. find_kernels w l ex = (lg, Inr ks) \<and>
           filter (\<lambda>k. version k = mkv) ks =
             [\<lparr>version = mkv,
               all_files =
                 (if mkv \<in> set (boot_entries w l)
                  then all_files (entry_kernel w ex (module_dict_of w l ex) (bootdir l) mkv)
                  else [])
                 @ fobjs\<rparr>]"
proof -
  have key: "mkv \<in> fst ` set (module_dict_of w l ex)"
    using assms(3) by force
  have get: "dict_get (module_dict_of w l ex) mkv = fobjs"
    using assms(2,3) by (simp add: module_dict_ok_def dict_get_member)
  show ?thesis
    using assms(4) key get
    by (simp add: find_kernels_eq [OF assms(1)] keyed_filter_version [OF final_dict_keyed]
        final_dict_map_of [OF assms(2)])
qed

theorem orphan_kernel_witness:
  "\<exists>lg ks. find_kernels scenario_env scenario_layout {} = (lg, Inr ks) \<and>
      filter (\<lambda>k. version k = ''5.9.9-orphan'') ks =
        [\<lparr>version = ''5.9.9-orphan'',
          all_files = [GenericFile [''/'', ''lib'', ''modules'', ''5.9.9-orphan''] MODULES]\<rparr>]"
proof -
  have md: "module_dict_of scenario_env scenario_layout {} = scenario_modules"
    by (simp add: module_dict_of_def scenario_env_def)
  have ok: "module_dict_ok (module_dict_of scenario_env scenario_layout {})"
    by (simp add: md module_dict_ok_def scenario_modules_def)
  have mem: "(''5.9.9-orphan'', [GenericFile [''/'', ''lib'', ''modules'', ''5.9.9-orphan''] MODULES])
      \<in> set (module_dict_of scenario_env scenario_layout {})"
    by (simp add: md scenario_modules_def)
  have un: "\<not> matched (fst (boot_scan scenario_env scenario_layout {})) ''5.9.9-orphan''"
    by (simp add: scenario_scan matched_def real_kv_def)
  have ne: "''5.9.9-orphan'' \<notin> set (boot_entries scenario_env scenario_layout)"
    by (simp add: boot_entries_def scenario_env_def scenario_layout_def processed_def path_defs)
  show ?thesis
    using orphan_kernel [OF _ ok mem un] ne by simp
qed

subsection \<open>Ownership\<close>

text \<open>
  C2 as stated fails: the boot entries \<^verbatim>\<open>a\<close> and \<^verbatim>\<open>b\<close> both have an image of internal
  version \<^verbatim>\<open>6.1\<close>, and both kernels own the record of the module tree \<^verbatim>\<open>6.1\<close>.
\<close>

theorem shared_module_tree_counterexample:
  "snd (find_kernels twin_env coincide_layout {}) =
     Inr [\<lparr>version = ''a'',
           all_files = [GenericFile [''/'', ''lib'', ''modules'', ''6.1''] MODULES,
                        KernelImage [''/'', ''efi'', ''m1'', ''a'', ''linux''] ''6.1'',
                        EmptyDirectory [''/'', ''efi'', ''m1'', ''a'']]\<rparr>,
          \<lparr>version = ''b'',
           all_files = [GenericFile [''/'', ''lib'', ''modules'', ''6.1''] MODULES,
                        KernelImage [''/'', ''efi'', ''m1'', ''b'', ''linux''] ''6.1'',
                        EmptyDirectory [''/'', ''efi'', ''m1'', ''b'']]\<rparr>]"
  by (simp add: twin_env_def coincide_layout_def path_defs scan_defs)

text \<open>
  C2, as the code has it.  A record is in the file lists of two kernels of the result
  only if it is a record of the module dictionary and one of these holds: the images
  of two boot entries have the same internal version and the record is stored under
  that version (line 97 gives the module tree to both); the module dictionary stores
  the record under two keys; or the path of the record lies below the boot directory.
  Hence the file lists of the kernels are pairwise disjoint when no two boot entries
  have images of the same internal version with a module tree under it, and the module
  trees have different records, none below the boot directory.  The listings hold names
  of directory entries, and the module dictionary is the collector's.
\<close>

theorem kernels_share_only_module_records:
  assumes "KERNEL \<notin> ex" and "module_dict_ok (module_dict_of w l ex)" and "listing_ok w l"
  shows "\<exists>lg ks. find_kernels w l ex = (lg, Inr ks) \<and>
     (\<forall>i j f. i < j \<and> j < length ks \<and>
         f \<in> set (all_files (ks ! i)) \<and> f \<in> set (all_files (ks ! j)) \<longrightarrow>
         (\<exists>kv. f \<in> set (dict_get (module_dict_of w l ex) kv) \<and>
            version (ks ! i) \<in> set (boot_entries w l) \<and>
            version (ks ! j) \<in> set (boot_entries w l) \<and>
            image_version w (joinpath (bootdir l) (version (ks ! i))) = Some kv \<and>
            image_version w (joinpath (bootdir l) (version (ks ! j))) = Some kv) \<or>
         (\<exists>kv1 kv2. kv1 \<noteq> kv2 \<and> f \<in> set (dict_get (module_dict_of w l ex) kv1) \<and>
            f \<in> set (dict_get (module_dict_of w l ex) kv2)) \<or>
         (\<exists>kv. f \<in> set (dict_get (module_dict_of w l ex) kv) \<and>
            take (length (bootdir l)) (file_path f) = bootdir l)) \<and>
     (images_apart w l (module_dict_of w l ex) \<and>
      module_files_apart (bootdir l) (module_dict_of w l ex) \<longrightarrow>
        (\<forall>i j. i < j \<and> j < length ks \<longrightarrow>
           set (all_files (ks ! i)) \<inter> set (all_files (ks ! j)) = {}))"
proof -
  let ?fd = "final_dict w l ex"
  let ?ks = "map snd ?fd"
  have k: "keyed ?fd" by (rule final_dict_keyed)
  have keys: "fst (?fd ! i) \<noteq> fst (?fd ! j)" if "i < j" and "j < length ?fd" for i j
  proof -
    have i: "i < length ?fd" using that by simp
    have "distinct (map fst ?fd)" using k by (simp add: keyed_def)
    then have "(map fst ?fd ! i = map fst ?fd ! j) = (i = j)"
      using i that(2) by (intro nth_eq_iff_index_eq) simp_all
    then show ?thesis using i that by simp
  qed
  have share: "(\<exists>kv. f \<in> set (dict_get (module_dict_of w l ex) kv) \<and>
            version (?ks ! i) \<in> set (boot_entries w l) \<and>
            version (?ks ! j) \<in> set (boot_entries w l) \<and>
            image_version w (joinpath (bootdir l) (version (?ks ! i))) = Some kv \<and>
            image_version w (joinpath (bootdir l) (version (?ks ! j))) = Some kv) \<or>
         (\<exists>kv1 kv2. kv1 \<noteq> kv2 \<and> f \<in> set (dict_get (module_dict_of w l ex) kv1) \<and>
            f \<in> set (dict_get (module_dict_of w l ex) kv2)) \<or>
         (\<exists>kv. f \<in> set (dict_get (module_dict_of w l ex) kv) \<and>
            take (length (bootdir l)) (file_path f) = bootdir l)"
    if "i < j" and "j < length ?ks" and "f \<in> set (all_files (?ks ! i))"
      and "f \<in> set (all_files (?ks ! j))" for i j f
  proof -
    have j: "j < length ?fd" using that(2) by simp
    have i: "i < length ?fd" using that(1) j by simp
    have fi: "f \<in> set (all_files (snd (?fd ! i)))" using that(3) i by simp
    have fj: "f \<in> set (all_files (snd (?fd ! j)))" using that(4) j by simp
    show ?thesis
      unfolding keyed_nth_version [OF k i] keyed_nth_version [OF k j]
      using final_files_shared [OF assms keyed_nth [OF k i] keyed_nth [OF k j]
          keys [OF that(1) j] fi fj] .
  qed
  have disj: "set (all_files (?ks ! i)) \<inter> set (all_files (?ks ! j)) = {}"
    if "images_apart w l (module_dict_of w l ex)"
      and "module_files_apart (bootdir l) (module_dict_of w l ex)"
      and "i < j" and "j < length ?ks" for i j
  proof -
    have j: "j < length ?fd" using that(4) by simp
    have i: "i < length ?fd" using that(3) j by simp
    show ?thesis
      using final_files_disjoint [OF assms that(1,2) keyed_nth [OF k i] keyed_nth [OF k j]
          keys [OF that(3) j]] i j by simp
  qed
  have fk: "find_kernels w l ex = (snd (boot_scan w l ex), Inr ?ks)"
    using assms(1) by (rule find_kernels_eq)
  have a: "\<forall>i j f. i < j \<and> j < length ?ks \<and>
         f \<in> set (all_files (?ks ! i)) \<and> f \<in> set (all_files (?ks ! j)) \<longrightarrow>
         (\<exists>kv. f \<in> set (dict_get (module_dict_of w l ex) kv) \<and>
            version (?ks ! i) \<in> set (boot_entries w l) \<and>
            version (?ks ! j) \<in> set (boot_entries w l) \<and>
            image_version w (joinpath (bootdir l) (version (?ks ! i))) = Some kv \<and>
            image_version w (joinpath (bootdir l) (version (?ks ! j))) = Some kv) \<or>
         (\<exists>kv1 kv2. kv1 \<noteq> kv2 \<and> f \<in> set (dict_get (module_dict_of w l ex) kv1) \<and>
            f \<in> set (dict_get (module_dict_of w l ex) kv2)) \<or>
         (\<exists>kv. f \<in> set (dict_get (module_dict_of w l ex) kv) \<and>
            take (length (bootdir l)) (file_path f) = bootdir l)"
  proof (intro allI impI, elim conjE)
    fix i j f
    assume "i < j" "j < length ?ks" "f \<in> set (all_files (?ks ! i))"
      "f \<in> set (all_files (?ks ! j))"
    then show "(\<exists>kv. f \<in> set (dict_get (module_dict_of w l ex) kv) \<and>
            version (?ks ! i) \<in> set (boot_entries w l) \<and>
            version (?ks ! j) \<in> set (boot_entries w l) \<and>
            image_version w (joinpath (bootdir l) (version (?ks ! i))) = Some kv \<and>
            image_version w (joinpath (bootdir l) (version (?ks ! j))) = Some kv) \<or>
         (\<exists>kv1 kv2. kv1 \<noteq> kv2 \<and> f \<in> set (dict_get (module_dict_of w l ex) kv1) \<and>
            f \<in> set (dict_get (module_dict_of w l ex) kv2)) \<or>
         (\<exists>kv. f \<in> set (dict_get (module_dict_of w l ex) kv) \<and>
            take (length (bootdir l)) (file_path f) = bootdir l)"
      by (rule share)
  qed
  have b: "images_apart w l (module_dict_of w l ex) \<and>
      module_files_apart (bootdir l) (module_dict_of w l ex) \<longrightarrow>
        (\<forall>i j. i < j \<and> j < length ?ks \<longrightarrow>
           set (all_files (?ks ! i)) \<inter> set (all_files (?ks ! j)) = {})"
  proof (intro allI impI, elim conjE)
    fix i j
    assume "images_apart w l (module_dict_of w l ex)"
      "module_files_apart (bootdir l) (module_dict_of w l ex)" "i < j" "j < length ?ks"
    then show "set (all_files (?ks ! i)) \<inter> set (all_files (?ks ! j)) = {}"
      by (rule disj)
  qed
  show ?thesis
    by (intro exI conjI) (rule fk, rule a, rule b)
qed

theorem kernels_share_only_module_records_witness:
  "(\<exists>lg k1 k2. find_kernels scenario_env scenario_layout {} = (lg, Inr [k1, k2]) \<and>
      version k1 = ''5.10.0'' \<and> version k2 = ''5.9.9-orphan'' \<and>
      set (all_files k1) \<inter> set (all_files k2) = {}) \<and>
   (\<exists>lg k1 k2 kv. find_kernels twin_env coincide_layout {} = (lg, Inr [k1, k2]) \<and>
      GenericFile [''/'', ''lib'', ''modules'', ''6.1''] MODULES \<in> set (all_files k1) \<and>
      GenericFile [''/'', ''lib'', ''modules'', ''6.1''] MODULES \<in> set (all_files k2) \<and>
      image_version twin_env [''/'', ''efi'', ''m1'', ''a''] = Some kv \<and>
      image_version twin_env [''/'', ''efi'', ''m1'', ''b''] = Some kv)"
proof -
  have h1: "KERNEL \<notin> {}" by simp
  have md: "module_dict_of scenario_env scenario_layout {} = scenario_modules"
    by (simp add: scenario_md)
  have h2: "module_dict_ok (module_dict_of scenario_env scenario_layout {})"
    by (simp add: md scenario_ok)
  have h3: "listing_ok scenario_env scenario_layout"
    by (simp add: listing_ok_def scenario_entries scenario_dir scenario_listing valid_name_def)
  have h4: "images_apart scenario_env scenario_layout
      (module_dict_of scenario_env scenario_layout {})"
    by (simp add: images_apart_def scenario_entries)
  have h5: "module_files_apart (bootdir scenario_layout)
      (module_dict_of scenario_env scenario_layout {})"
    unfolding md by (simp add: module_files_apart_def scenario_modules_def scenario_layout_def)
  from kernels_share_only_module_records [OF h1 h2 h3] h4 h5 obtain lg ks where
    r: "find_kernels scenario_env scenario_layout {} = (lg, Inr ks)"
    and d: "\<And>i j. i < j \<and> j < length ks \<Longrightarrow>
          set (all_files (ks ! i)) \<inter> set (all_files (ks ! j)) = {}"
    by blast
  obtain k1 k2 where ks: "ks = [k1, k2]"
    and v: "version k1 = ''5.10.0''" "version k2 = ''5.9.9-orphan''"
    using r scenario_result by auto
  have "set (all_files k1) \<inter> set (all_files k2) = {}"
    using d [of 0 1] by (simp add: ks)
  then have first: "\<exists>lg k1 k2. find_kernels scenario_env scenario_layout {} = (lg, Inr [k1, k2]) \<and>
      version k1 = ''5.10.0'' \<and> version k2 = ''5.9.9-orphan'' \<and>
      set (all_files k1) \<inter> set (all_files k2) = {}"
    using r ks v by blast
  let ?m = "GenericFile [''/'', ''lib'', ''modules'', ''6.1''] MODULES"
  have t2: "module_dict_ok (module_dict_of twin_env coincide_layout {})"
    by (simp add: twin_md module_dict_ok_def)
  have t3: "listing_ok twin_env coincide_layout"
    by (simp add: listing_ok_def twin_entries twin_dirs twin_listings valid_name_def)
  from kernels_share_only_module_records [OF h1 t2 t3] obtain lg' ks' where
    r': "find_kernels twin_env coincide_layout {} = (lg', Inr ks')"
    and s: "\<And>i j f. i < j \<and> j < length ks' \<and>
         f \<in> set (all_files (ks' ! i)) \<and> f \<in> set (all_files (ks' ! j)) \<Longrightarrow>
         (\<exists>kv. f \<in> set (dict_get (module_dict_of twin_env coincide_layout {}) kv) \<and>
            version (ks' ! i) \<in> set (boot_entries twin_env coincide_layout) \<and>
            version (ks' ! j) \<in> set (boot_entries twin_env coincide_layout) \<and>
            image_version twin_env (joinpath (bootdir coincide_layout) (version (ks' ! i))) = Some kv \<and>
            image_version twin_env (joinpath (bootdir coincide_layout) (version (ks' ! j))) = Some kv) \<or>
         (\<exists>kv1 kv2. kv1 \<noteq> kv2 \<and>
            f \<in> set (dict_get (module_dict_of twin_env coincide_layout {}) kv1) \<and>
            f \<in> set (dict_get (module_dict_of twin_env coincide_layout {}) kv2)) \<or>
         (\<exists>kv. f \<in> set (dict_get (module_dict_of twin_env coincide_layout {}) kv) \<and>
            take (length (bootdir coincide_layout)) (file_path f) = bootdir coincide_layout)"
    by blast
  obtain a b where ks': "ks' = [a, b]" and va: "version a = ''a''" and vb: "version b = ''b''"
    and ma: "?m \<in> set (all_files a)" and mb: "?m \<in> set (all_files b)"
    using r' twin_result by auto
  have nb: "\<not> (\<exists>kv1 kv2. kv1 \<noteq> kv2 \<and>
            ?m \<in> set (dict_get (module_dict_of twin_env coincide_layout {}) kv1) \<and>
            ?m \<in> set (dict_get (module_dict_of twin_env coincide_layout {}) kv2))"
    by (auto simp add: twin_md dict_get_def split: if_splits)
  have nc: "take (length (bootdir coincide_layout)) (file_path ?m) \<noteq> bootdir coincide_layout"
    by (simp add: coincide_layout_def)
  have "\<exists>kv. image_version twin_env (joinpath (bootdir coincide_layout) ''a'') = Some kv \<and>
      image_version twin_env (joinpath (bootdir coincide_layout) ''b'') = Some kv"
    using s [of 0 1 ?m] ma mb nb nc by (auto simp add: ks' va vb)
  then have "\<exists>lg k1 k2 kv. find_kernels twin_env coincide_layout {} = (lg, Inr [k1, k2]) \<and>
      ?m \<in> set (all_files k1) \<and> ?m \<in> set (all_files k2) \<and>
      image_version twin_env [''/'', ''efi'', ''m1'', ''a''] = Some kv \<and>
      image_version twin_env [''/'', ''efi'', ''m1'', ''b''] = Some kv"
    using r' ks' ma mb unfolding twin_dirs by blast
  with first show ?thesis by blast
qed

end
